theory Spec2Isabelle
  imports Main "HOL-Library.Sublist"
begin

section \<open>JavaScript values\<close>

text \<open>
  The bodies of the save requests are JSON. A field that is absent (\<open>undefined\<close>)
  or \<open>null\<close> is \<open>None\<close>; a field that is present is a string or a number (the
  front end sends strings, the \<open>sku\<close> as the text of its input box). \<open>JNumber n\<close>
  is the integer the JSON parser produced. Booleans, arrays, objects and numbers with a
  fractional part are not modelled.
  The schema fields of type \<open>String\<close> with default \<open>null\<close> are \<open>string option\<close>.
\<close>

datatype jsval = JNumber int | JString string

text \<open>JavaScript truthiness, as \<open>!x\<close> and \<open>a && b\<close> read it.\<close>

definition truthy :: "string option \<Rightarrow> bool" where
  "truthy v = (case v of None \<Rightarrow> False | Some s \<Rightarrow> s \<noteq> [])"

definition truthy_val :: "jsval option \<Rightarrow> bool" where
  "truthy_val v =
     (case v of None \<Rightarrow> False
      | Some (JNumber n) \<Rightarrow> n \<noteq> 0
      | Some (JString s) \<Rightarrow> s \<noteq> [])"

text \<open>The decimal digits of a natural number.\<close>

fun digits :: "nat \<Rightarrow> string" where
  "digits n =
     (if n < 10 then [''0123456789'' ! n]
      else digits (n div 10) @ [''0123456789'' ! (n mod 10)])"

declare digits.simps [simp del]

text \<open>\<open>String.prototype.includes\<close>: the argument occurs as a contiguous substring.\<close>

fun includes_str :: "string \<Rightarrow> string \<Rightarrow> bool" where
  "includes_str [] sub = (sub = [])"
| "includes_str (c # cs) sub = (prefix sub (c # cs) \<or> includes_str cs sub)"

text \<open>
  \<open>imageDataUrl.split(',')[1]\<close>: the text between the first and the second comma,
  \<open>undefined\<close> when the string has no comma.
\<close>

definition split_comma_second :: "string \<Rightarrow> string option" where
  "split_comma_second s =
     (if CHR '','' \<in> set s
      then Some (takeWhile (\<lambda>c. c \<noteq> CHR '','') (tl (dropWhile (\<lambda>c. c \<noteq> CHR '','') s)))
      else None)"

text \<open>
  \<open>imageDataUrl.match(/data:image\/([^;]+)/)\<close>: the leftmost place where
  \<open>data:image/\<close> is followed by at least one character other than \<open>;\<close>; the
  capture group is the longest run of such characters.
\<close>

fun format_match :: "string \<Rightarrow> string option" where
  "format_match [] = None"
| "format_match (c # cs) =
     (if prefix ''data:image/'' (c # cs)
         \<and> takeWhile (\<lambda>x. x \<noteq> CHR '';'') (drop 11 (c # cs)) \<noteq> []
      then Some (takeWhile (\<lambda>x. x \<noteq> CHR '';'') (drop 11 (c # cs)))
      else format_match cs)"

text \<open>\<open>formatMatch ? formatMatch[1].split(';')[0] : 'png'\<close>\<close>

definition extension_of :: "string \<Rightarrow> string" where
  "extension_of imageDataUrl =
     (case format_match imageDataUrl of
        Some g \<Rightarrow> takeWhile (\<lambda>x. x \<noteq> CHR '';'') g
      | None \<Rightarrow> ''png'')"

section \<open>The Product schema\<close>

text \<open>
  \<open>productSchema\<close> of \<open>backend/server.js\<close>. The sources hold two revisions of this
  file: \<open>src/backend/server.js\<close> and the first document of \<open>src/unnamed/part_003\<close>
  (the one with the description endpoints). They declare the same fields; the timestamp
  is spelled \<open>'Created at'\<close> in the former and \<open>'Created At'\<close> in the latter. A
  \<open>Date\<close> is its number of milliseconds.
\<close>

record product =
  SKU :: int
  Status :: string
  Pre_Image_URL :: "string option"
  Category :: "string option"
  Wax_Image_URL :: "string option"
  Cast_Image_URL :: "string option"
  Final_Image_URL :: "string option"
  Wax_Description :: "string option"
  Cast_Description :: "string option"
  Final_Description :: "string option"
  Created_At :: nat

datatype revision = Server_js | Part_003

text \<open>
  The paths \<open>productSchema.path(name)\<close> knows: the declared fields and the two
  Mongoose adds to every schema.
\<close>

definition schema_paths :: "revision \<Rightarrow> string list" where
  "schema_paths v =
     [''SKU'', ''Status'', ''Pre-Image URL'', ''Category'',
      ''Wax Image URL'', ''Cast Image URL'', ''Final Image URL'',
      ''Wax Description'', ''Cast Description'', ''Final Description'',
      (case v of Server_js \<Rightarrow> ''Created at'' | Part_003 \<Rightarrow> ''Created At''),
      ''_id'', ''__v'']"

definition schema_path :: "revision \<Rightarrow> string \<Rightarrow> bool" where
  "schema_path v name = (name \<in> set (schema_paths v))"

text \<open>
  \<open>product[fieldToUpdate] = text\<close> for a field of type \<open>String\<close>. The handlers
  only assign names that end in \<open>Image URL\<close> or \<open>Description\<close>
  (see \<open>image_field_recognized\<close> and \<open>desc_field_recognized\<close>), so the other
  schema paths never reach this function.
\<close>

definition set_field :: "string \<Rightarrow> string \<Rightarrow> product \<Rightarrow> product" where
  "set_field name text p =
     (if name = ''Wax Image URL'' then p\<lparr>Wax_Image_URL := Some text\<rparr>
      else if name = ''Cast Image URL'' then p\<lparr>Cast_Image_URL := Some text\<rparr>
      else if name = ''Final Image URL'' then p\<lparr>Final_Image_URL := Some text\<rparr>
      else if name = ''Wax Description'' then p\<lparr>Wax_Description := Some text\<rparr>
      else if name = ''Cast Description'' then p\<lparr>Cast_Description := Some text\<rparr>
      else if name = ''Final Description'' then p\<lparr>Final_Description := Some text\<rparr>
      else if name = ''Pre-Image URL'' then p\<lparr>Pre_Image_URL := Some text\<rparr>
      else if name = ''Category'' then p\<lparr>Category := Some text\<rparr>
      else if name = ''Status'' then p\<lparr>Status := text\<rparr>
      else p)"

subsection \<open>checkFulfillment\<close>

text \<open>
  \<open>src/unnamed/part_003\<close>, lines 64-75: three image URLs and three descriptions.
\<close>

definition checkFulfillment :: "product \<Rightarrow> bool" where
  "checkFulfillment p =
     (let urlsFilled = truthy (Wax_Image_URL p) \<and> truthy (Cast_Image_URL p)
                       \<and> truthy (Final_Image_URL p);
          descsFilled = truthy (Wax_Description p) \<and> truthy (Cast_Description p)
                        \<and> truthy (Final_Description p)
      in urlsFilled \<and> descsFilled)"

text \<open>
  \<open>src/backend/server.js\<close>, lines 72-83: the same check with the
  \<open>'Pre-Image URL'\<close> first among the URLs.
\<close>

definition checkFulfillment_server_js :: "product \<Rightarrow> bool" where
  "checkFulfillment_server_js p =
     (let urlsFilled = truthy (Pre_Image_URL p) \<and> truthy (Wax_Image_URL p)
                       \<and> truthy (Cast_Image_URL p) \<and> truthy (Final_Image_URL p);
          descsFilled = truthy (Wax_Description p) \<and> truthy (Cast_Description p)
                        \<and> truthy (Final_Description p)
      in urlsFilled \<and> descsFilled)"

definition check_of :: "revision \<Rightarrow> product \<Rightarrow> bool" where
  "check_of v = (case v of Server_js \<Rightarrow> checkFulfillment_server_js | Part_003 \<Rightarrow> checkFulfillment)"

subsection \<open>Recomputing the status\<close>

text \<open>
  The block both save handlers run after the slot assignment:
  \<^verbatim>\<open>
  if (checkFulfillment(product) && product.Status === 'Pending') {
    product.Status = 'Fulfilled';
    product['Created At'] = new Date();
  }
  \<close>
  \<open>now\<close> is the value of \<open>new Date()\<close>.
\<close>

definition recompute_status :: "revision \<Rightarrow> nat \<Rightarrow> product \<Rightarrow> product" where
  "recompute_status v now p =
     (if check_of v p \<and> Status p = ''Pending''
      then p\<lparr>Status := ''Fulfilled'', Created_At := now\<rparr>
      else p)"

section \<open>The server's surroundings\<close>

text \<open>
  What the handlers read from \<open>process.env\<close> and from module constants. The two
  address fields hold the text a template literal prints for them.
\<close>

record config =
  SERVER_BASE_URL :: string
  PORT :: string
  GOOGLE_AI_API_KEY :: "string option"
  publicImagesDir :: string

text \<open>
  Library functions whose code is not part of the repository are parameters:
  \<open>path.join\<close>, \<open>Buffer.from(text, 'base64')\<close>, \<open>buffer.toString('base64')\<close>,
  Mongoose's cast of a query string to \<open>Number\<close> (\<open>Inl\<close> the message of its
  \<open>CastError\<close>), the message of the \<open>TypeError\<close> that
  \<open>Buffer.from(undefined, 'base64')\<close> throws, and the text \<open>String(n)\<close> of a number
  of magnitude \<open>1e21\<close> or more, which JavaScript prints in exponent form (given as its
  first character and the rest: it is never empty).
\<close>

record platform =
  path_join :: "string \<Rightarrow> string \<Rightarrow> string"
  from_base64 :: "string \<Rightarrow> string"
  to_base64 :: "string \<Rightarrow> string"
  castNumber :: "string \<Rightarrow> string + int"
  buffer_type_error :: string
  exponent_text :: "int \<Rightarrow> char \<times> string"

text \<open>
  The text of a value, as a template literal \<open>`${sku}`\<close> prints it and as Mongoose's
  cast to \<open>String\<close> stores it: a string is itself, a number below \<open>1e21\<close> in
  magnitude is its decimal digits.
\<close>

definition template :: "platform \<Rightarrow> jsval \<Rightarrow> string" where
  "template pf v =
     (case v of
        JNumber n \<Rightarrow>
          (if 1000000000000000000000 \<le> \<bar>n\<bar>
           then fst (exponent_text pf n) # snd (exponent_text pf n)
           else if n < 0 then CHR ''-'' # digits (nat (- n)) else digits (nat n))
      | JString s \<Rightarrow> s)"

text \<open>
  What the surroundings do during one request: the clock, and for the database lookup,
  the file write and the database save either success (\<open>None\<close>) or the message of the
  error thrown.
\<close>

record outcome =
  now :: nat
  findOne_error :: "string option"
  write_error :: "string option"
  save_error :: "string option"

text \<open>
  The state the handlers share: the \<open>Google_sheet_data\<close> collection, indexed by
  the unique \<open>SKU\<close>, and the files on disk by path.
\<close>

record world =
  store :: "int \<rightharpoonup> product"
  files :: "string \<rightharpoonup> string"

datatype response =
    Failure nat string
  | Saved string product
  | Sent_image string string string

text \<open>\<open>Product.findOne({ 'SKU': sku })\<close>\<close>

definition findOne :: "platform \<Rightarrow> outcome \<Rightarrow> world \<Rightarrow> jsval \<Rightarrow> string + (int \<times> product) option" where
  "findOne pf ev w k =
     (case (case k of JNumber n \<Rightarrow> Inr n | JString s \<Rightarrow> castNumber pf s) of
        Inl m \<Rightarrow> Inl m
      | Inr n \<Rightarrow>
          (case findOne_error ev of
             Some m \<Rightarrow> Inl m
           | None \<Rightarrow> (case store w n of None \<Rightarrow> Inr None | Some p \<Rightarrow> Inr (Some (n, p)))))"

section \<open>POST /api/update-product-image\<close>

text \<open>
  The address of a stored image: \<open>`http://localhost:${PORT}/images/${filename}`\<close> in
  \<open>src/backend/server.js\<close>,
  \<open>`${process.env.SERVER_BASE_URL}/images/${filename}`\<close> in \<open>part_003\<close>.
\<close>

definition public_url :: "revision \<Rightarrow> config \<Rightarrow> string \<Rightarrow> string" where
  "public_url v cfg filename =
     (case v of
        Server_js \<Rightarrow> ''http://localhost:'' @ PORT cfg @ ''/images/'' @ filename
      | Part_003 \<Rightarrow> SERVER_BASE_URL cfg @ ''/images/'' @ filename)"

definition image_filename :: "platform \<Rightarrow> jsval \<Rightarrow> jsval \<Rightarrow> string \<Rightarrow> string" where
  "image_filename pf sku imageType imageDataUrl =
     template pf sku @ ''_'' @ template pf imageType @ ''.'' @ extension_of imageDataUrl"

text \<open>
  The handler of \<open>src/backend/server.js\<close> (lines 131-191) and of \<open>part_003\<close>
  (lines 116-165); they differ in \<open>checkFulfillment\<close> and in the address only. Every
  \<open>return res.status(...)\<close> and every path into the \<open>catch\<close> block is a branch:
  a failed lookup, an \<open>imageDataUrl\<close> that is not a string and so has no
  \<open>startsWith\<close>, a data URL without a comma, a failed write, a failed save.
  The second registration of the same route at the end of \<open>src/backend/server.js\<close>
  never runs: the first one answers every request.
\<close>

definition update_product_image ::
  "platform \<Rightarrow> config \<Rightarrow> revision \<Rightarrow> outcome \<Rightarrow>
   jsval option \<Rightarrow> jsval option \<Rightarrow> jsval option \<Rightarrow> world \<Rightarrow> response \<times> world" where
  "update_product_image pf cfg v ev sku imageType imageDataUrl w =
     (if \<not> truthy_val sku \<or> \<not> truthy_val imageType \<or> \<not> truthy_val imageDataUrl
      then (Failure 400 ''SKU, imageType, and imageDataUrl are required'', w)
      else
        (case (sku, imageType, imageDataUrl) of
           (Some k, Some t, Some u) \<Rightarrow>
             (case findOne pf ev w k of
                Inl m \<Rightarrow> (Failure 500 (''Failed to save image: '' @ m), w)
              | Inr None \<Rightarrow>
                  (Failure 404 (''Product with SKU '' @ template pf k @ '' not found.''), w)
              | Inr (Some (n, product)) \<Rightarrow>
                  (case u of
                     JNumber x \<Rightarrow>
                       (Failure 500
                          ''Failed to save image: imageDataUrl.startsWith is not a function'', w)
                   | JString url \<Rightarrow>
                       if \<not> prefix ''data:image/'' url
                       then (Failure 400 ''Invalid imageDataUrl format'', w)
                       else
                         (case split_comma_second url of
                            None \<Rightarrow>
                              (Failure 500 (''Failed to save image: '' @ buffer_type_error pf), w)
                          | Some base64Data \<Rightarrow>
                              (let filename = image_filename pf k t url;
                                   imagePath = path_join pf (publicImagesDir cfg) filename
                               in case write_error ev of
                                    Some m \<Rightarrow> (Failure 500 (''Failed to save image: '' @ m), w)
                                  | None \<Rightarrow>
                                      (let w1 = w\<lparr>files := (files w)(imagePath \<mapsto> from_base64 pf base64Data)\<rparr>;
                                           publicImageUrl = public_url v cfg filename;
                                           fieldToUpdate = template pf t @ '' Image URL''
                                       in if \<not> schema_path v fieldToUpdate
                                          then (Failure 400 (''Invalid imageType: '' @ template pf t), w1)
                                          else
                                            (let product1 = recompute_status v (now ev)
                                                   (set_field fieldToUpdate publicImageUrl product)
                                             in case save_error ev of
                                                  Some m \<Rightarrow>
                                                    (Failure 500 (''Failed to save image: '' @ m), w1)
                                                | None \<Rightarrow>
                                                    (Saved (''Image for SKU '' @ template pf k
                                                            @ '' saved as '' @ template pf t
                                                            @ '' successfully.'') product1,
                                                     w1\<lparr>store := (store w1)(n \<mapsto> product1)\<rparr>)))))))
         | _ \<Rightarrow> (Failure 400 ''SKU, imageType, and imageDataUrl are required'', w)))"

section \<open>POST /api/update-product-description\<close>

text \<open>
  \<open>part_003\<close>, lines 184-222; \<open>src/backend/server.js\<close> has no such route. The
  assignment \<open>product[fieldToUpdate] = description\<close> stores the text of the value
  (Mongoose casts it to \<open>String\<close>).
\<close>

definition update_product_description ::
  "platform \<Rightarrow> outcome \<Rightarrow> jsval option \<Rightarrow> jsval option \<Rightarrow> jsval option \<Rightarrow> world
   \<Rightarrow> response \<times> world" where
  "update_product_description pf ev sku descType description w =
     (if \<not> truthy_val sku \<or> \<not> truthy_val descType \<or> \<not> truthy_val description
      then (Failure 400 ''SKU, descType, and description are required'', w)
      else
        (case (sku, descType, description) of
           (Some k, Some t, Some d) \<Rightarrow>
             (case findOne pf ev w k of
                Inl m \<Rightarrow> (Failure 500 (''Failed to save description: '' @ m), w)
              | Inr None \<Rightarrow>
                  (Failure 404 (''Product with SKU '' @ template pf k @ '' not found.''), w)
              | Inr (Some (n, product)) \<Rightarrow>
                  (let fieldToUpdate = template pf t @ '' Description''
                   in if \<not> schema_path Part_003 fieldToUpdate
                      then (Failure 400 (''Invalid descType: '' @ template pf t), w)
                      else
                        (let product1 = recompute_status Part_003 (now ev)
                               (set_field fieldToUpdate (template pf d) product)
                         in case save_error ev of
                              Some m \<Rightarrow> (Failure 500 (''Failed to save description: '' @ m), w)
                            | None \<Rightarrow>
                                (Saved (''Description for SKU '' @ template pf k @ '' saved as ''
                                        @ template pf t @ '' successfully.'') product1,
                                 w\<lparr>store := (store w)(n \<mapsto> product1)\<rparr>))))
         | _ \<Rightarrow> (Failure 400 ''SKU, descType, and description are required'', w)))"

section \<open>Sequences of save requests\<close>

datatype request =
    Update_product_image "jsval option" "jsval option" "jsval option"
  | Update_product_description "jsval option" "jsval option" "jsval option"

text \<open>
  Express routes a request to its handler. \<open>src/backend/server.js\<close> registers no
  description route, so there the request falls through to Express's own 404.
\<close>

definition dispatch ::
  "platform \<Rightarrow> config \<Rightarrow> revision \<Rightarrow> outcome \<Rightarrow> request \<Rightarrow> world \<Rightarrow> response \<times> world" where
  "dispatch pf cfg v ev req w =
     (case req of
        Update_product_image sku imageType imageDataUrl \<Rightarrow>
          update_product_image pf cfg v ev sku imageType imageDataUrl w
      | Update_product_description sku descType description \<Rightarrow>
          (case v of
             Part_003 \<Rightarrow> update_product_description pf ev sku descType description w
           | Server_js \<Rightarrow> (Failure 404 ''Cannot POST /api/update-product-description'', w)))"

text \<open>The requests of a list, served one after the other.\<close>

fun serve ::
  "platform \<Rightarrow> config \<Rightarrow> revision \<Rightarrow> (outcome \<times> request) list \<Rightarrow> world \<Rightarrow> world" where
  "serve pf cfg v [] w = w"
| "serve pf cfg v ((ev, req) # rest) w = serve pf cfg v rest (snd (dispatch pf cfg v ev req w))"

section \<open>The image generation gateway\<close>

text \<open>
  \<open>generateImageWithGoogleAI\<close> (\<open>src/backend/server.js\<close>, lines 195-261;
  \<open>part_003\<close>, lines 228-275; the two are the same code). The external service is a
  function from the call to what \<open>axios.post\<close> does with it: it throws (a status
  other than 2xx, a timeout, no usable \<open>data\<close>), or it returns a body whose
  \<open>predictions\<close> field is absent or a list. The older server in the second document
  of \<open>part_003\<close> (the one with \<open>/api/save-image\<close>) has the same loop and differs
  only in how it names the image format; it is not modelled.
\<close>

record prediction =
  bytesBase64Encoded :: "string option"
  mimeType :: "string option"

datatype api_outcome = Rejected string | Responded "prediction list option"

record api_call =
  model :: string
  prompt :: string
  reference_image :: "string option"

record generated =
  imageBuffer :: string
  modelUsed :: string
  imageFormat :: string

definition imagenModels :: "string list" where
  "imagenModels = [''imagen-4.0-generate-preview-06-06'', ''imagen-3.0-generate-002'']"

text \<open>
  The body of the call. \<open>fs.readFileSync(referenceImagePath)\<close> runs while the body is
  built, inside the inner \<open>try\<close>: when the file is missing it throws before anything
  is sent (\<open>None\<close>).
\<close>

definition request_body ::
  "platform \<Rightarrow> (string \<rightharpoonup> string) \<Rightarrow> string \<Rightarrow> string option \<Rightarrow> string \<Rightarrow> api_call option" where
  "request_body pf fs p referenceImagePath m =
     (case referenceImagePath of
        None \<Rightarrow> Some \<lparr>model = m, prompt = p, reference_image = None\<rparr>
      | Some path \<Rightarrow>
          if path = [] then Some \<lparr>model = m, prompt = p, reference_image = None\<rparr>
          else (case fs path of
                  None \<Rightarrow> None
                | Some bytes \<Rightarrow>
                    Some \<lparr>model = m, prompt = p, reference_image = Some (to_base64 pf bytes)\<rparr>))"

definition format_of_mime :: "string option \<Rightarrow> string" where
  "format_of_mime declared =
     (case declared of
        None \<Rightarrow> ''png''
      | Some mime \<Rightarrow>
          if mime = [] then ''png''
          else if includes_str mime ''jpeg'' \<or> includes_str mime ''jpg'' then ''jpeg''
          else if includes_str mime ''gif'' then ''gif''
          else if includes_str mime ''webp'' then ''webp''
          else ''png'')"

text \<open>What one pass of the loop body makes of the service's answer.\<close>

definition model_result :: "platform \<Rightarrow> string \<Rightarrow> api_outcome \<Rightarrow> string + generated" where
  "model_result pf m out =
     (case out of
        Rejected msg \<Rightarrow> Inl msg
      | Responded None \<Rightarrow> Inl ''No predictions found in response''
      | Responded (Some []) \<Rightarrow> Inl ''No predictions found in response''
      | Responded (Some (prediction # others)) \<Rightarrow>
          (case bytesBase64Encoded prediction of
             None \<Rightarrow> Inl ''No bytesBase64Encoded in prediction''
           | Some b \<Rightarrow>
               if b = [] then Inl ''No bytesBase64Encoded in prediction''
               else Inr \<lparr>imageBuffer = from_base64 pf b, modelUsed = m,
                         imageFormat = format_of_mime (mimeType prediction)\<rparr>))"

text \<open>
  \<open>for (const model of imagenModels) { try { ... return ... } catch { continue } }\<close>:
  the calls sent, in order, and the first result if there is one.
\<close>

fun try_models ::
  "platform \<Rightarrow> (api_call \<Rightarrow> api_outcome) \<Rightarrow> (string \<rightharpoonup> string) \<Rightarrow> string \<Rightarrow> string option
   \<Rightarrow> string list \<Rightarrow> api_call list \<times> generated option" where
  "try_models pf api fs p ref [] = ([], None)"
| "try_models pf api fs p ref (m # rest) =
     (case request_body pf fs p ref m of
        None \<Rightarrow> try_models pf api fs p ref rest
      | Some body \<Rightarrow>
          (case model_result pf m (api body) of
             Inr g \<Rightarrow> ([body], Some g)
           | Inl msg \<Rightarrow>
               (case try_models pf api fs p ref rest of
                  (calls, r) \<Rightarrow> (body # calls, r))))"

definition generateImageWithGoogleAI ::
  "platform \<Rightarrow> config \<Rightarrow> (api_call \<Rightarrow> api_outcome) \<Rightarrow> (string \<rightharpoonup> string) \<Rightarrow> string
   \<Rightarrow> string option \<Rightarrow> api_call list \<times> (string + generated)" where
  "generateImageWithGoogleAI pf cfg api fs p referenceImagePath =
     (if \<not> truthy (GOOGLE_AI_API_KEY cfg)
      then ([], Inl ''Image generation failed: Google AI API key not configured'')
      else
        (case try_models pf api fs p referenceImagePath imagenModels of
           (calls, Some g) \<Rightarrow> (calls, Inr g)
         | (calls, None) \<Rightarrow>
             (calls, Inl ''Image generation failed: All configured Imagen models failed.'')))"

section \<open>POST /api/generate-image\<close>

text \<open>
  The handler (\<open>src/backend/server.js\<close>, lines 96-127; \<open>part_003\<close>, lines 87-113),
  entered after \<open>upload.single('referenceImage')\<close> has stored the uploaded file, if
  any, under \<open>req.file.path\<close>. It returns the response, the calls sent to the service
  and the files afterwards.
\<close>

definition generate_image ::
  "platform \<Rightarrow> config \<Rightarrow> (api_call \<Rightarrow> api_outcome) \<Rightarrow> string option \<Rightarrow> string option \<Rightarrow> world
   \<Rightarrow> response \<times> api_call list \<times> world" where
  "generate_image pf cfg api body_prompt file_path w =
     (let referenceImagePath = file_path
      in case body_prompt of
           None \<Rightarrow> (Failure 400 ''Prompt is required'', [], w)
         | Some p \<Rightarrow>
             if p = [] then (Failure 400 ''Prompt is required'', [], w)
             else
               (case generateImageWithGoogleAI pf cfg api (files w) p referenceImagePath of
                  (calls, Inl msg) \<Rightarrow>
                    (Failure 500 (''Failed to generate image: '' @ msg), calls, w)
                | (calls, Inr g) \<Rightarrow>
                    (Sent_image (''image/'' @ imageFormat g) (modelUsed g) (imageBuffer g),
                     calls,
                     (case referenceImagePath of
                        None \<Rightarrow> w
                      | Some path \<Rightarrow>
                          if path \<noteq> [] \<and> files w path \<noteq> None
                          then w\<lparr>files := (files w)(path := None)\<rparr>
                          else w))))"

section \<open>Notions used by the properties\<close>

text \<open>
  The six slot names of the spec, and "all six required slots are non-empty".
\<close>

definition six_slots :: "string set" where
  "six_slots = {''Wax Image URL'', ''Cast Image URL'', ''Final Image URL'',
                ''Wax Description'', ''Cast Description'', ''Final Description''}"

definition six_filled :: "product \<Rightarrow> bool" where
  "six_filled p =
     (truthy (Wax_Image_URL p) \<and> truthy (Cast_Image_URL p) \<and> truthy (Final_Image_URL p)
      \<and> truthy (Wax_Description p) \<and> truthy (Cast_Description p)
      \<and> truthy (Final_Description p))"



text \<open>
  The status stored under a SKU; a request fires the transition for a SKU when it finds
  the status \<open>Pending\<close> and leaves it \<open>Fulfilled\<close>; \<open>transitions\<close> counts the
  requests of a list that do.
\<close>

definition status_of :: "world \<Rightarrow> int \<Rightarrow> string option" where
  "status_of w n = map_option Status (store w n)"

definition fires :: "int \<Rightarrow> world \<Rightarrow> world \<Rightarrow> bool" where
  "fires n w w' = (status_of w n = Some ''Pending'' \<and> status_of w' n = Some ''Fulfilled'')"

fun transitions ::
  "platform \<Rightarrow> config \<Rightarrow> revision \<Rightarrow> int \<Rightarrow> (outcome \<times> request) list \<Rightarrow> world \<Rightarrow> nat" where
  "transitions pf cfg v n [] w = 0"
| "transitions pf cfg v n ((ev, req) # rest) w =
     (if fires n w (snd (dispatch pf cfg v ev req w)) then 1 else 0)
     + transitions pf cfg v n rest (snd (dispatch pf cfg v ev req w))"

text \<open>
  One pass of the loop of \<open>generateImageWithGoogleAI\<close> for one model: the result it
  returns with, or \<open>None\<close> when the pass ends in the \<open>catch\<close>.
\<close>

definition attempt ::
  "platform \<Rightarrow> (api_call \<Rightarrow> api_outcome) \<Rightarrow> (string \<rightharpoonup> string) \<Rightarrow> string \<Rightarrow> string option
   \<Rightarrow> string \<Rightarrow> generated option" where
  "attempt pf api fs p ref m =
     (case request_body pf fs p ref m of
        None \<Rightarrow> None
      | Some body \<Rightarrow> (case model_result pf m (api body) of Inl msg \<Rightarrow> None | Inr g \<Rightarrow> Some g))"

text \<open>
  The calls that reach the service when the loop runs through the given models.
\<close>

definition sent ::
  "platform \<Rightarrow> (string \<rightharpoonup> string) \<Rightarrow> string \<Rightarrow> string option \<Rightarrow> string list \<Rightarrow> api_call list" where
  "sent pf fs p ref ms = List.map_filter (request_body pf fs p ref) ms"

text \<open>
  The words of claim C5, "a model attempt that yields a prediction containing a base64
  image payload", taken literally: some prediction of the response carries a non-empty
  payload. Used only to state where the code differs.
\<close>

definition yields_payload :: "api_outcome \<Rightarrow> bool" where
  "yields_payload out =
     (case out of
        Rejected msg \<Rightarrow> False
      | Responded None \<Rightarrow> False
      | Responded (Some ps) \<Rightarrow> list_ex (\<lambda>pr. truthy (bytesBase64Encoded pr)) ps)"

section \<open>Sample data\<close>

text \<open>
  Concrete surroundings, products and requests, for the instances the properties are
  run on: a platform whose \<open>path.join\<close> puts a slash between its arguments and whose
  base64 coding is the identity, a configuration with an API key, and outcomes in which
  nothing fails.
\<close>

definition example_platform :: platform where
  "example_platform =
     \<lparr>path_join = (\<lambda>dir name. dir @ ''/'' @ name),
      from_base64 = (\<lambda>s. s),
      to_base64 = (\<lambda>s. s),
      castNumber = (\<lambda>s. if s = ''1001'' then Inr 1001 else Inl ''Cast to Number failed''),
      buffer_type_error = ''The first argument must be of type string'',
      exponent_text = (\<lambda>n. (CHR ''1'', ''e+21''))\<rparr>"

definition example_config :: config where
  "example_config =
     \<lparr>SERVER_BASE_URL = ''http://localhost:5000'', PORT = ''5000'',
      GOOGLE_AI_API_KEY = Some ''key'', publicImagesDir = ''public/images''\<rparr>"

definition calm :: "nat \<Rightarrow> outcome" where
  "calm t = \<lparr>now = t, findOne_error = None, write_error = None, save_error = None\<rparr>"

text \<open>
  A product as the schema's defaults make it, one with five of the six slots filled
  (the final image missing, no pre-image), one with all six filled that is still
  \<open>Pending\<close>, and a fulfilled one.
\<close>

definition new_product :: "int \<Rightarrow> product" where
  "new_product n =
     \<lparr>SKU = n, Status = ''Pending'', Pre_Image_URL = None, Category = None,
      Wax_Image_URL = None, Cast_Image_URL = None, Final_Image_URL = None,
      Wax_Description = None, Cast_Description = None, Final_Description = None,
      Created_At = 0\<rparr>"

definition five_of_six :: product where
  "five_of_six =
     (new_product 1001)\<lparr>Wax_Image_URL := Some ''w.png'', Cast_Image_URL := Some ''c.png'',
        Wax_Description := Some ''wax'', Cast_Description := Some ''cast'',
        Final_Description := Some ''final''\<rparr>"

definition fulfilled_product :: product where
  "fulfilled_product =
     five_of_six\<lparr>Final_Image_URL := Some ''f.png'', Status := ''Fulfilled'', Created_At := 5\<rparr>"


definition world_five :: world where
  "world_five = \<lparr>store = [1001 \<mapsto> five_of_six], files = Map.empty\<rparr>"

definition complete_pending :: product where
  "complete_pending = five_of_six\<lparr>Final_Image_URL := Some ''f.png''\<rparr>"

definition world_complete_pending :: world where
  "world_complete_pending = \<lparr>store = [1001 \<mapsto> complete_pending], files = Map.empty\<rparr>"

definition world_fulfilled :: world where
  "world_fulfilled = \<lparr>store = [1001 \<mapsto> fulfilled_product], files = Map.empty\<rparr>"


definition world_with_upload :: world where
  "world_with_upload =
     \<lparr>store = Map.empty, files = [''uploads/1700000000000-ring.png'' \<mapsto> ''PNG-bytes'']\<rparr>"

text \<open>
  Save requests for SKU 1001.
\<close>

definition save_final_image :: request where
  "save_final_image =
     Update_product_image (Some (JNumber 1001)) (Some (JString ''Final''))
       (Some (JString ''data:image/png;base64,AAAA''))"

definition save_wax_png :: request where
  "save_wax_png =
     Update_product_image (Some (JNumber 1001)) (Some (JString ''Wax''))
       (Some (JString ''data:image/png;base64,AAAA''))"



definition describe_gold :: request where
  "describe_gold =
     Update_product_description (Some (JNumber 1001)) (Some (JString ''Gold''))
       (Some (JString ''a gold ring''))"

text \<open>
  Generation services: one that rejects every call, one in which only the second model
  answers, and one whose first model answers with the payload in its second prediction.
\<close>

definition all_rejecting :: "api_call \<Rightarrow> api_outcome" where
  "all_rejecting c = Rejected ''Request failed with status code 404''"

definition second_model_answers :: "api_call \<Rightarrow> api_outcome" where
  "second_model_answers c =
     (if model c = ''imagen-3.0-generate-002''
      then Responded (Some [\<lparr>bytesBase64Encoded = Some ''BBBB'', mimeType = Some ''image/jpeg''\<rparr>])
      else Rejected ''timeout of 30000ms exceeded'')"

definition payload_in_second_prediction :: "api_call \<Rightarrow> api_outcome" where
  "payload_in_second_prediction c =
     (if model c = ''imagen-4.0-generate-preview-06-06''
      then Responded (Some [\<lparr>bytesBase64Encoded = None, mimeType = Some ''image/png''\<rparr>,
                            \<lparr>bytesBase64Encoded = Some ''AAAA'', mimeType = Some ''image/png''\<rparr>])
      else Responded (Some [\<lparr>bytesBase64Encoded = Some ''BBBB'', mimeType = Some ''image/jpeg''\<rparr>]))"

section \<open>Basic facts\<close>

lemma append_eq_iff_suffix:
  "t @ suf = s \<longleftrightarrow> length suf \<le> length s \<and> t = take (length s - length suf) s
      \<and> drop (length s - length suf) s = suf"
proof
  assume "t @ suf = s"
  then have s: "s = t @ suf" by simp
  show "length suf \<le> length s \<and> t = take (length s - length suf) s
      \<and> drop (length s - length suf) s = suf"
    unfolding s by simp
next
  assume a: "length suf \<le> length s \<and> t = take (length s - length suf) s
      \<and> drop (length s - length suf) s = suf"
  have "take (length s - length suf) s @ drop (length s - length suf) s = s"
    by (rule append_take_drop_id)
  with a show "t @ suf = s" by simp
qed

lemma image_field_recognized:
  "schema_path v (t @ '' Image URL'') \<longleftrightarrow> t = ''Wax'' \<or> t = ''Cast'' \<or> t = ''Final''"
  by (cases v) (auto simp: schema_path_def schema_paths_def append_eq_iff_suffix)

lemma desc_field_recognized:
  "schema_path v (t @ '' Description'') \<longleftrightarrow> t = ''Wax'' \<or> t = ''Cast'' \<or> t = ''Final''"
  by (cases v) (auto simp: schema_path_def schema_paths_def append_eq_iff_suffix)

lemma recompute_status_idem:
  "recompute_status v t2 (recompute_status v t1 p) = recompute_status v t1 p"
  by (cases v) (simp_all add: recompute_status_def check_of_def checkFulfillment_def checkFulfillment_server_js_def)

lemma findOne_SomeD:
  "findOne pf ev w k = Inr (Some (n, p)) \<Longrightarrow> store w n = Some p"
  by (auto simp: findOne_def split: jsval.splits sum.splits option.splits)

lemma public_url_nonempty: "public_url v cfg f \<noteq> []"
  by (cases v) (simp_all add: public_url_def)

lemma truthy_Some [simp]: "truthy (Some s) \<longleftrightarrow> s \<noteq> []"
  by (simp add: truthy_def)

lemma truthy_None [simp]: "\<not> truthy None"
  by (simp add: truthy_def)

lemma update_product_image_missing:
  "\<not> (truthy_val sku \<and> truthy_val imageType \<and> truthy_val imageDataUrl) \<Longrightarrow>
   update_product_image pf cfg v ev sku imageType imageDataUrl w
     = (Failure 400 ''SKU, imageType, and imageDataUrl are required'', w)"
  by (auto simp: update_product_image_def)

lemma digits_nonempty: "digits n \<noteq> []"
  by (subst digits.simps) simp

lemma template_nonempty: "truthy_val (Some d) \<Longrightarrow> template pf d \<noteq> []"
  by (cases d) (simp_all add: truthy_val_def template_def digits_nonempty)

lemma update_product_image_unsaved:
  assumes "update_product_image pf cfg v ev sku imageType imageDataUrl w = (r, w')"
    and "\<forall>m q. r \<noteq> Saved m q"
  shows "store w' = store w"
  using assms
  unfolding update_product_image_def Let_def
  by (auto split: if_splits option.splits sum.splits prod.splits jsval.splits)

lemma update_product_image_saved:
  assumes "update_product_image pf cfg v ev sku imageType imageDataUrl w = (Saved m q, w')"
  shows "\<exists>k t u n p b. sku = Some k \<and> imageType = Some t \<and> imageDataUrl = Some (JString u)
            \<and> truthy_val sku \<and> truthy_val imageType \<and> prefix ''data:image/'' u
            \<and> findOne pf ev w k = Inr (Some (n, p))
            \<and> split_comma_second u = Some b
            \<and> write_error ev = None \<and> save_error ev = None
            \<and> schema_path v (template pf t @ '' Image URL'')
            \<and> q = recompute_status v (now ev)
                   (set_field (template pf t @ '' Image URL'')
                      (public_url v cfg (image_filename pf k t u)) p)
            \<and> m = ''Image for SKU '' @ template pf k @ '' saved as '' @ template pf t
                    @ '' successfully.''
            \<and> w' = w\<lparr>files := (files w)(path_join pf (publicImagesDir cfg)
                                          (image_filename pf k t u)
                                        \<mapsto> from_base64 pf b),
                       store := (store w)(n \<mapsto> q)\<rparr>"
  using assms
  unfolding update_product_image_def Let_def
  by (simp split: if_splits option.splits sum.splits prod.splits jsval.splits) auto

lemma update_product_description_unsaved:
  assumes "update_product_description pf ev sku descType description w = (r, w')"
    and "\<forall>m q. r \<noteq> Saved m q"
  shows "w' = w"
  using assms
  unfolding update_product_description_def Let_def
  by (auto split: if_splits option.splits sum.splits prod.splits)

lemma update_product_description_saved:
  assumes "update_product_description pf ev sku descType description w = (Saved m q, w')"
  shows "\<exists>k t d n p. sku = Some k \<and> descType = Some t \<and> description = Some d
            \<and> truthy_val sku \<and> truthy_val descType \<and> truthy_val description
            \<and> findOne pf ev w k = Inr (Some (n, p))
            \<and> save_error ev = None
            \<and> schema_path Part_003 (template pf t @ '' Description'')
            \<and> q = recompute_status Part_003 (now ev)
                   (set_field (template pf t @ '' Description'') (template pf d) p)
            \<and> m = ''Description for SKU '' @ template pf k @ '' saved as '' @ template pf t
                    @ '' successfully.''
            \<and> w' = w\<lparr>store := (store w)(n \<mapsto> q)\<rparr>"
  using assms
  unfolding update_product_description_def Let_def
  by (simp split: if_splits option.splits sum.splits prod.splits) auto

lemma image_slot_in_six: "schema_path v (t @ '' Image URL'') \<Longrightarrow> t @ '' Image URL'' \<in> six_slots"
  by (auto simp: image_field_recognized six_slots_def)

lemma desc_slot_in_six: "schema_path v (t @ '' Description'') \<Longrightarrow> t @ '' Description'' \<in> six_slots"
  by (auto simp: desc_field_recognized six_slots_def)

lemma dispatch_unsaved:
  assumes "dispatch pf cfg v ev req w = (r, w')" and "\<forall>m q. r \<noteq> Saved m q"
  shows "store w' = store w"
proof (cases req)
  case (Update_product_image s t u)
  with assms show ?thesis
    by (auto simp: dispatch_def dest: update_product_image_unsaved)
next
  case (Update_product_description s t d)
  with assms show ?thesis
    by (cases v) (auto simp: dispatch_def dest: update_product_description_unsaved)
qed

lemma dispatch_saved:
  assumes "dispatch pf cfg v ev req w = (Saved m q, w')"
  shows "\<exists>n p f x. store w n = Some p \<and> f \<in> six_slots \<and> x \<noteq> []
            \<and> q = recompute_status v (now ev) (set_field f x p)
            \<and> store w' = (store w)(n \<mapsto> q)"
proof (cases req)
  case (Update_product_image s t u)
  with assms have "update_product_image pf cfg v ev s t u w = (Saved m q, w')"
    by (simp add: dispatch_def)
  from update_product_image_saved [OF this]
  obtain k ty url n p b where
    f: "findOne pf ev w k = Inr (Some (n, p))"
    and sp: "schema_path v (template pf ty @ '' Image URL'')"
    and q: "q = recompute_status v (now ev)
                   (set_field (template pf ty @ '' Image URL'')
                      (public_url v cfg (image_filename pf k ty url)) p)"
    and w': "w' = w\<lparr>files := (files w)(path_join pf (publicImagesDir cfg)
                                          (image_filename pf k ty url)
                                        \<mapsto> from_base64 pf b),
                       store := (store w)(n \<mapsto> q)\<rparr>"
    by blast
  have "store w n = Some p" using f by (rule findOne_SomeD)
  moreover have "template pf ty @ '' Image URL'' \<in> six_slots"
    using sp by (rule image_slot_in_six)
  moreover have "public_url v cfg (image_filename pf k ty url) \<noteq> []"
    by (rule public_url_nonempty)
  moreover have "store w' = (store w)(n \<mapsto> q)" using w' by simp
  ultimately show ?thesis using q by blast
next
  case (Update_product_description s t d)
  with assms have v: "v = Part_003"
    and "update_product_description pf ev s t d w = (Saved m q, w')"
    by (cases v; simp add: dispatch_def)+
  from update_product_description_saved [OF this(2)]
  obtain k ty de n p where
    f: "findOne pf ev w k = Inr (Some (n, p))"
    and sp: "schema_path Part_003 (template pf ty @ '' Description'')"
    and ne: "truthy_val (Some de)"
    and q: "q = recompute_status Part_003 (now ev)
                  (set_field (template pf ty @ '' Description'') (template pf de) p)"
    and w': "w' = w\<lparr>store := (store w)(n \<mapsto> q)\<rparr>"
    by blast
  have "store w n = Some p" using f by (rule findOne_SomeD)
  moreover have "template pf ty @ '' Description'' \<in> six_slots"
    using sp by (rule desc_slot_in_six)
  moreover have "template pf de \<noteq> []" using ne by (rule template_nonempty)
  moreover have "store w' = (store w)(n \<mapsto> q)" using w' by simp
  ultimately show ?thesis using q v by blast
qed

lemma check_of_six:
  "check_of v p \<longleftrightarrow> six_filled p \<and> (v = Server_js \<longrightarrow> truthy (Pre_Image_URL p))"
  by (cases v)
     (auto simp: check_of_def checkFulfillment_def checkFulfillment_server_js_def six_filled_def)

lemma set_field_six_frame:
  assumes "f \<in> six_slots"
  shows "Status (set_field f x p) = Status p"
    and "Created_At (set_field f x p) = Created_At p"
    and "Pre_Image_URL (set_field f x p) = Pre_Image_URL p"
  using assms by (auto simp: six_slots_def set_field_def)

lemma set_field_six_filled_mono:
  assumes "f \<in> six_slots" and "x \<noteq> []" and "six_filled p"
  shows "six_filled (set_field f x p)"
  using assms by (auto simp: six_slots_def set_field_def six_filled_def)

lemma recompute_status_frame:
  "six_filled (recompute_status v t p) = six_filled p"
  "Pre_Image_URL (recompute_status v t p) = Pre_Image_URL p"
  by (simp_all add: recompute_status_def six_filled_def)

lemma recompute_status_Status:
  "Status (recompute_status v t p) =
     (if check_of v p \<and> Status p = ''Pending'' then ''Fulfilled'' else Status p)"
  by (simp add: recompute_status_def)

lemma recompute_status_Created_At:
  "Created_At (recompute_status v t p) =
     (if check_of v p \<and> Status p = ''Pending'' then t else Created_At p)"
  by (simp add: recompute_status_def)

text \<open>What one request does to the product stored under a given SKU.\<close>

lemma dispatch_product:
  assumes "dispatch pf cfg v ev req w = (r, w')"
  shows "store w' n = store w n
       \<or> (\<exists>p f x. store w n = Some p \<and> f \<in> six_slots \<and> x \<noteq> []
            \<and> store w' n = Some (recompute_status v (now ev) (set_field f x p)))"
proof (cases "\<exists>m q. r = Saved m q")
  case False
  then have "store w' = store w"
    using dispatch_unsaved [OF assms] by blast
  then show ?thesis by simp
next
  case True
  then obtain m q where "r = Saved m q" by blast
  with assms have "dispatch pf cfg v ev req w = (Saved m q, w')" by simp
  from dispatch_saved [OF this]
  obtain k p f x where k: "store w k = Some p" and f: "f \<in> six_slots" "x \<noteq> []"
    and q: "q = recompute_status v (now ev) (set_field f x p)"
    and w': "store w' = (store w)(k \<mapsto> q)"
    by blast
  show ?thesis
  proof (cases "n = k")
    case True
    with k f q w' show ?thesis by auto
  next
    case False
    with w' show ?thesis by simp
  qed
qed

lemma slot_write_invariant:
  assumes f: "f \<in> six_slots" and x: "x \<noteq> []"
    and st: "Status p = ''Pending'' \<or> Status p = ''Fulfilled''"
    and inv: "Status p = ''Fulfilled'' \<longleftrightarrow> check_of v p"
  shows "(Status (recompute_status v t (set_field f x p)) = ''Pending''
          \<or> Status (recompute_status v t (set_field f x p)) = ''Fulfilled'')
       \<and> (Status (recompute_status v t (set_field f x p)) = ''Fulfilled''
            \<longleftrightarrow> check_of v (recompute_status v t (set_field f x p)))"
proof -
  let ?p1 = "set_field f x p"
  let ?p' = "recompute_status v t ?p1"
  have s1: "Status ?p1 = Status p" using f by (rule set_field_six_frame)
  have mono: "check_of v p \<Longrightarrow> check_of v ?p1"
    using f x by (simp add: check_of_six set_field_six_filled_mono set_field_six_frame)
  have c': "check_of v ?p' = check_of v ?p1"
    by (simp add: check_of_six recompute_status_frame)
  have st': "Status ?p' = (if check_of v ?p1 \<and> Status p = ''Pending'' then ''Fulfilled'' else Status p)"
    by (simp add: recompute_status_Status s1)
  show ?thesis
    using st inv mono unfolding c' st' by auto
qed

lemma slot_write_unfilled:
  assumes f: "f \<in> six_slots"
    and n6: "\<not> six_filled (recompute_status v t (set_field f x p))"
  shows "Status (recompute_status v t (set_field f x p)) = Status p"
  using assms
  by (simp add: recompute_status_Status recompute_status_frame check_of_six set_field_six_frame)

lemma dispatch_keeps_invariant:
  assumes step: "dispatch pf cfg v ev req w = (r, w')"
    and p: "store w n = Some p"
    and st: "Status p = ''Pending'' \<or> Status p = ''Fulfilled''"
    and inv: "Status p = ''Fulfilled'' \<longleftrightarrow>
                six_filled p \<and> (v = Server_js \<longrightarrow> truthy (Pre_Image_URL p))"
  shows "\<exists>p'. store w' n = Some p'
           \<and> (Status p' = ''Pending'' \<or> Status p' = ''Fulfilled'')
           \<and> (Status p' = ''Fulfilled'' \<longleftrightarrow>
                six_filled p' \<and> (v = Server_js \<longrightarrow> truthy (Pre_Image_URL p')))
           \<and> (\<not> six_filled p' \<longrightarrow> Status p' = Status p)"
proof -
  from dispatch_product [OF step, of n] p
  consider (same) "store w' n = Some p"
    | (written) f x where "f \<in> six_slots" "x \<noteq> []"
        "store w' n = Some (recompute_status v (now ev) (set_field f x p))"
    by auto
  then show ?thesis
  proof cases
    case same
    with st inv show ?thesis by simp
  next
    case written
    from inv have inv': "Status p = ''Fulfilled'' \<longleftrightarrow> check_of v p"
      by (simp add: check_of_six)
    from slot_write_invariant [OF written(1,2) st inv', of "now ev"]
      slot_write_unfilled [OF written(1), of v "now ev" x p]
      written(3)
    show ?thesis unfolding check_of_six by auto
  qed
qed

lemma dispatch_keeps_fulfilled:
  assumes "status_of w n = Some ''Fulfilled''"
  shows "status_of (snd (dispatch pf cfg v ev req w)) n = Some ''Fulfilled''"
proof -
  have step: "dispatch pf cfg v ev req w = (fst (dispatch pf cfg v ev req w), snd (dispatch pf cfg v ev req w))"
    by simp
  from dispatch_product [OF step, of n] assms show ?thesis
    by (auto simp: status_of_def recompute_status_Status set_field_six_frame)
qed

lemma serve_keeps_fulfilled:
  "status_of w n = Some ''Fulfilled'' \<Longrightarrow> status_of (serve pf cfg v reqs w) n = Some ''Fulfilled''"
proof (induction reqs arbitrary: w)
  case Nil
  then show ?case by simp
next
  case (Cons a reqs)
  obtain ev req where a: "a = (ev, req)" by (cases a)
  from Cons.prems have "status_of (snd (dispatch pf cfg v ev req w)) n = Some ''Fulfilled''"
    by (rule dispatch_keeps_fulfilled)
  then show ?case unfolding a by (simp add: Cons.IH)
qed

lemma serve_keeps_invariant:
  assumes "store w n = Some p"
    and "Status p = ''Pending'' \<or> Status p = ''Fulfilled''"
    and "Status p = ''Fulfilled'' \<longleftrightarrow>
           six_filled p \<and> (v = Server_js \<longrightarrow> truthy (Pre_Image_URL p))"
  shows "\<exists>p'. store (serve pf cfg v reqs w) n = Some p'
           \<and> (Status p' = ''Pending'' \<or> Status p' = ''Fulfilled'')
           \<and> (Status p' = ''Fulfilled'' \<longleftrightarrow>
                six_filled p' \<and> (v = Server_js \<longrightarrow> truthy (Pre_Image_URL p')))"
  using assms
proof (induction reqs arbitrary: w p)
  case Nil
  then show ?case by simp
next
  case (Cons a reqs)
  obtain ev req where a: "a = (ev, req)" by (cases a)
  let ?w1 = "snd (dispatch pf cfg v ev req w)"
  have step: "dispatch pf cfg v ev req w = (fst (dispatch pf cfg v ev req w), ?w1)" by simp
  from dispatch_keeps_invariant [OF step Cons.prems]
  obtain p1 where "store ?w1 n = Some p1"
    and "Status p1 = ''Pending'' \<or> Status p1 = ''Fulfilled''"
    and "Status p1 = ''Fulfilled'' \<longleftrightarrow>
           six_filled p1 \<and> (v = Server_js \<longrightarrow> truthy (Pre_Image_URL p1))"
    by blast
  from Cons.IH [OF this] show ?case unfolding a by simp
qed

lemma findOne_number:
  "findOne pf ev w (JNumber n) = Inr None \<longleftrightarrow> findOne_error ev = None \<and> store w n = None"
  by (auto simp: findOne_def split: option.splits)

lemma image_slot_six_iff:
  "t @ '' Image URL'' \<in> six_slots \<longleftrightarrow> t = ''Wax'' \<or> t = ''Cast'' \<or> t = ''Final''"
  by (auto simp: six_slots_def append_eq_iff_suffix)

lemma desc_slot_six_iff:
  "t @ '' Description'' \<in> six_slots \<longleftrightarrow> t = ''Wax'' \<or> t = ''Cast'' \<or> t = ''Final''"
  by (auto simp: six_slots_def append_eq_iff_suffix)

lemma schema_path_image_six: "schema_path v (t @ '' Image URL'') \<longleftrightarrow> t @ '' Image URL'' \<in> six_slots"
  by (simp add: image_field_recognized image_slot_six_iff)

lemma schema_path_desc_six: "schema_path v (t @ '' Description'') \<longleftrightarrow> t @ '' Description'' \<in> six_slots"
  by (simp add: desc_field_recognized desc_slot_six_iff)

text \<open>
  An image save that passes every step up to the slot check and fails there: the file
  has been written by then.
\<close>

lemma invalid_image_type_after_write:
  assumes "findOne pf ev w k = Inr (Some (n, p))"
    and "truthy_val (Some k)" and "truthy_val (Some t)"
    and "template pf t @ '' Image URL'' \<notin> six_slots"
    and "prefix ''data:image/'' url"
    and "split_comma_second url = Some b"
    and "write_error ev = None"
  shows "update_product_image pf cfg v ev (Some k) (Some t) (Some (JString url)) w =
           (Failure 400 (''Invalid imageType: '' @ template pf t),
            w\<lparr>files := (files w)(path_join pf (publicImagesDir cfg) (image_filename pf k t url)
                                   \<mapsto> from_base64 pf b)\<rparr>)"
proof -
  from assms(5) have "truthy_val (Some (JString url))" by (auto simp: truthy_val_def)
  with assms show ?thesis
    by (simp add: update_product_image_def Let_def schema_path_image_six)
qed


text \<open>The sample requests, run.\<close>

lemma template_JString [simp]: "template pf (JString s) = s"
  by (simp add: template_def)

lemma template_1001: "template pf (JNumber 1001) = ''1001''"
  by (simp add: template_def digits.simps)

lemma extension_png: "extension_of ''data:image/png;base64,AAAA'' = ''png''"
  by (simp add: extension_of_def)

lemma split_png: "split_comma_second ''data:image/png;base64,AAAA'' = Some ''AAAA''"
  by (simp add: split_comma_second_def)

lemma save_final_image_server_js:
  "dispatch example_platform example_config Server_js (calm 7) save_final_image world_five =
     (Saved ''Image for SKU 1001 saved as Final successfully.''
        (five_of_six\<lparr>Final_Image_URL := Some ''http://localhost:5000/images/1001_Final.png''\<rparr>),
      \<lparr>store = [1001 \<mapsto> five_of_six\<lparr>Final_Image_URL := Some ''http://localhost:5000/images/1001_Final.png''\<rparr>],
       files = [''public/images/1001_Final.png'' \<mapsto> ''AAAA'']\<rparr>)"
  by (simp add: Let_def dispatch_def save_final_image_def update_product_image_def truthy_val_def
        findOne_def world_five_def calm_def example_platform_def example_config_def
        image_filename_def template_1001 extension_png split_png public_url_def
        schema_path_def schema_paths_def set_field_def recompute_status_def check_of_def
        checkFulfillment_server_js_def five_of_six_def new_product_def)

lemma save_final_image_part_003:
  "dispatch example_platform example_config Part_003 (calm 7) save_final_image world_five =
     (Saved ''Image for SKU 1001 saved as Final successfully.''
        (five_of_six\<lparr>Final_Image_URL := Some ''http://localhost:5000/images/1001_Final.png'',
                      Status := ''Fulfilled'', Created_At := 7\<rparr>),
      \<lparr>store = [1001 \<mapsto> five_of_six\<lparr>Final_Image_URL := Some ''http://localhost:5000/images/1001_Final.png'',
                      Status := ''Fulfilled'', Created_At := 7\<rparr>],
       files = [''public/images/1001_Final.png'' \<mapsto> ''AAAA'']\<rparr>)"
  by (simp add: Let_def dispatch_def save_final_image_def update_product_image_def truthy_val_def
        findOne_def world_five_def calm_def example_platform_def example_config_def
        image_filename_def template_1001 extension_png split_png public_url_def
        schema_path_def schema_paths_def set_field_def recompute_status_def check_of_def
        checkFulfillment_def five_of_six_def new_product_def)

section \<open>C1: the status and the six slots\<close>

text \<open>
  C1 (amended). Take a product whose status is \<open>Pending\<close> or \<open>Fulfilled\<close> and is
  \<open>Fulfilled\<close> exactly when its required slots are non-empty, as a product with the
  schema's defaults is. After any list of save requests, whatever their outcomes, the
  product is still stored under its SKU and the same holds of it. The required slots are
  the six of the spec (three image URLs, three descriptions) in the revision of
  \<open>part_003\<close>, where \<open>checkFulfillment\<close> leaves the pre-image URL out; the revision
  of \<open>src/backend/server.js\<close> requires the pre-image URL as a seventh. In both, a
  product that lacks one of the six slots after the requests is \<open>Pending\<close>, as it
  was before them.
\<close>

theorem fulfilled_iff_required_slots:
  assumes p: "store w n = Some p"
    and st: "Status p = ''Pending'' \<or> Status p = ''Fulfilled''"
    and inv: "Status p = ''Fulfilled'' \<longleftrightarrow>
                six_filled p \<and> (v = Server_js \<longrightarrow> truthy (Pre_Image_URL p))"
  shows "\<exists>p'. store (serve pf cfg v reqs w) n = Some p'
           \<and> (Status p' = ''Pending'' \<or> Status p' = ''Fulfilled'')
           \<and> (Status p' = ''Fulfilled'' \<longleftrightarrow>
                six_filled p' \<and> (v = Server_js \<longrightarrow> truthy (Pre_Image_URL p')))
           \<and> (\<not> six_filled p' \<longrightarrow> Status p' = ''Pending'' \<and> Status p = ''Pending'')"
proof -
  from serve_keeps_invariant [OF p st inv, of pf cfg reqs]
  obtain p' where p': "store (serve pf cfg v reqs w) n = Some p'"
    and st': "Status p' = ''Pending'' \<or> Status p' = ''Fulfilled''"
    and inv': "Status p' = ''Fulfilled'' \<longleftrightarrow>
                six_filled p' \<and> (v = Server_js \<longrightarrow> truthy (Pre_Image_URL p'))"
    by blast
  have "Status p' = ''Pending'' \<and> Status p = ''Pending''" if "\<not> six_filled p'"
  proof -
    from that inv' st' have pending: "Status p' = ''Pending''" by blast
    have "Status p \<noteq> ''Fulfilled''"
    proof
      assume "Status p = ''Fulfilled''"
      with p have "status_of w n = Some ''Fulfilled''" by (simp add: status_of_def)
      then have "status_of (serve pf cfg v reqs w) n = Some ''Fulfilled''"
        by (rule serve_keeps_fulfilled)
      with p' pending show False by (simp add: status_of_def)
    qed
    with st pending show ?thesis by blast
  qed
  with p' st' inv' show ?thesis by blast
qed

theorem fulfilled_iff_required_slots_witness:
  "\<exists>p'. store (serve example_platform example_config Part_003 [(calm 7, save_final_image)]
              world_five) 1001 = Some p'
      \<and> Status p' = ''Fulfilled'' \<and> six_filled p'"
proof -
  have p: "store world_five 1001 = Some five_of_six" by (simp add: world_five_def)
  have st: "Status five_of_six = ''Pending'' \<or> Status five_of_six = ''Fulfilled''"
    by (simp add: five_of_six_def new_product_def)
  have inv: "Status five_of_six = ''Fulfilled'' \<longleftrightarrow>
       six_filled five_of_six \<and> (Part_003 = Server_js \<longrightarrow> truthy (Pre_Image_URL five_of_six))"
    by (simp add: five_of_six_def new_product_def six_filled_def)
  from fulfilled_iff_required_slots [OF p st inv, of example_platform example_config
         "[(calm 7, save_final_image)]"]
  obtain p' where a: "store (serve example_platform example_config Part_003
                        [(calm 7, save_final_image)] world_five) 1001 = Some p'"
    and b: "Status p' = ''Fulfilled'' \<longleftrightarrow>
              six_filled p' \<and> (Part_003 = Server_js \<longrightarrow> truthy (Pre_Image_URL p'))"
    by blast
  have "map_option six_filled (store (serve example_platform example_config Part_003
          [(calm 7, save_final_image)] world_five) 1001) = Some True"
    by (simp add: save_final_image_part_003) (simp add: five_of_six_def new_product_def six_filled_def)
  with a have "six_filled p'" by simp
  with a b show ?thesis by simp
qed

text \<open>
  The claim as the spec words it, with the pre-image slot left out of the check, fails on
  \<open>src/backend/server.js\<close>: a pending product with five of the six slots filled and
  no pre-image gets its last image saved there, and stays \<open>Pending\<close> with all six
  slots filled.
\<close>

theorem status_iff_six_slots_counterexample:
  "Status five_of_six = ''Pending'' \<and> \<not> six_filled five_of_six
   \<and> map_option Status (store (snd (dispatch example_platform example_config Server_js (calm 7)
          save_final_image world_five)) 1001) = Some ''Pending''
   \<and> map_option six_filled (store (snd (dispatch example_platform example_config Server_js (calm 7)
          save_final_image world_five)) 1001) = Some True"
  unfolding save_final_image_server_js
  by (simp add: five_of_six_def new_product_def six_filled_def)

section \<open>C3 and C4: recomputing the status, and its one transition\<close>

lemma transitions_after_fulfilled:
  "status_of w n = Some ''Fulfilled'' \<Longrightarrow> transitions pf cfg v n reqs w = 0"
proof (induction reqs arbitrary: w)
  case Nil
  then show ?case by simp
next
  case (Cons a reqs)
  obtain ev req where a: "a = (ev, req)" by (cases a)
  from Cons.prems have "status_of (snd (dispatch pf cfg v ev req w)) n = Some ''Fulfilled''"
    by (rule dispatch_keeps_fulfilled)
  with Cons.prems show ?case unfolding a by (simp add: Cons.IH fires_def)
qed

lemma transitions_at_most_one: "transitions pf cfg v n reqs w \<le> 1"
proof (induction reqs arbitrary: w)
  case Nil
  then show ?case by simp
next
  case (Cons a reqs)
  obtain ev req where a: "a = (ev, req)" by (cases a)
  show ?case
  proof (cases "fires n w (snd (dispatch pf cfg v ev req w))")
    case True
    then have "status_of (snd (dispatch pf cfg v ev req w)) n = Some ''Fulfilled''"
      by (simp add: fires_def)
    then have "transitions pf cfg v n reqs (snd (dispatch pf cfg v ev req w)) = 0"
      by (rule transitions_after_fulfilled)
    with True show ?thesis unfolding a by simp
  next
    case False
    with Cons.IH [of "snd (dispatch pf cfg v ev req w)"] show ?thesis unfolding a by simp
  qed
qed

lemma fires_completes:
  assumes "fires n w (snd (dispatch pf cfg v ev req w))"
  shows "map_option six_filled (store (snd (dispatch pf cfg v ev req w)) n) = Some True
       \<and> map_option Created_At (store (snd (dispatch pf cfg v ev req w)) n) = Some (now ev)"
proof -
  have step: "dispatch pf cfg v ev req w = (fst (dispatch pf cfg v ev req w), snd (dispatch pf cfg v ev req w))"
    by simp
  from dispatch_product [OF step, of n] assms show ?thesis
    by (auto simp: fires_def status_of_def recompute_status_Status recompute_status_Created_At
          recompute_status_frame set_field_six_frame check_of_six split: if_splits)
qed

lemma no_fire_keeps_timestamp:
  assumes "\<not> fires n w (snd (dispatch pf cfg v ev req w))"
  shows "map_option Created_At (store (snd (dispatch pf cfg v ev req w)) n)
           = map_option Created_At (store w n)"
proof -
  have step: "dispatch pf cfg v ev req w = (fst (dispatch pf cfg v ev req w), snd (dispatch pf cfg v ev req w))"
    by simp
  from dispatch_product [OF step, of n] assms show ?thesis
    by (auto simp: fires_def status_of_def recompute_status_Status recompute_status_Created_At
          set_field_six_frame split: if_splits)
qed

text \<open>
  C3. In both revisions, recomputing the status twice in a row gives the product the
  first recomputation gave, whatever the clock shows the second time; and on a product
  that is already \<open>Fulfilled\<close> the recomputation changes nothing, the timestamp
  included.
\<close>

theorem recompute_status_idempotent:
  "recompute_status v t2 (recompute_status v t1 p) = recompute_status v t1 p
   \<and> (Status p = ''Fulfilled'' \<longrightarrow> recompute_status v t1 p = p)"
  by (simp add: recompute_status_idem) (simp add: recompute_status_def)

theorem recompute_status_idempotent_witness:
  "recompute_status Part_003 9 (recompute_status Part_003 8 fulfilled_product)
     = recompute_status Part_003 8 fulfilled_product
   \<and> recompute_status Part_003 8 fulfilled_product = fulfilled_product
   \<and> Created_At (recompute_status Part_003 8 fulfilled_product) = 5"
proof -
  have st: "Status fulfilled_product = ''Fulfilled''"
    by (simp add: fulfilled_product_def)
  have stamp: "Created_At fulfilled_product = 5"
    by (simp add: fulfilled_product_def)
  from recompute_status_idempotent [of Part_003 9 8 fulfilled_product] st
  have twice: "recompute_status Part_003 9 (recompute_status Part_003 8 fulfilled_product)
                 = recompute_status Part_003 8 fulfilled_product"
    and same: "recompute_status Part_003 8 fulfilled_product = fulfilled_product"
    by blast+
  from same stamp have "Created_At (recompute_status Part_003 8 fulfilled_product) = 5"
    by simp
  with twice same show ?thesis by blast
qed

lemma fires_under_invariant:
  assumes p: "store w n = Some p"
    and inv: "Status p = ''Fulfilled'' \<longleftrightarrow>
                six_filled p \<and> (v = Server_js \<longrightarrow> truthy (Pre_Image_URL p))"
    and fire: "fires n w (snd (dispatch pf cfg v ev req w))"
  shows "\<not> six_filled p"
proof -
  have step: "dispatch pf cfg v ev req w = (fst (dispatch pf cfg v ev req w), snd (dispatch pf cfg v ev req w))"
    by simp
  from fire p have pending: "Status p = ''Pending''"
    by (simp add: fires_def status_of_def)
  from dispatch_product [OF step, of n] p
  consider (same) "store (snd (dispatch pf cfg v ev req w)) n = Some p"
    | (written) f x where "f \<in> six_slots"
        "store (snd (dispatch pf cfg v ev req w)) n
           = Some (recompute_status v (now ev) (set_field f x p))"
    by auto
  then show ?thesis
  proof cases
    case same
    with fire pending show ?thesis by (simp add: fires_def status_of_def)
  next
    case written
    with fire have "Status (recompute_status v (now ev) (set_field f x p)) = ''Fulfilled''"
      by (simp add: fires_def status_of_def)
    with pending written(1) have "check_of v (set_field f x p)"
      by (simp add: recompute_status_Status set_field_six_frame split: if_splits)
    then have "v = Server_js \<longrightarrow> truthy (Pre_Image_URL p)"
      using written(1) by (simp add: check_of_six set_field_six_frame)
    with inv pending show ?thesis by auto
  qed
qed

lemma fires_completes_slot_set:
  assumes p: "store w n = Some p"
    and st: "Status p = ''Pending'' \<or> Status p = ''Fulfilled''"
    and inv: "Status p = ''Fulfilled'' \<longleftrightarrow>
                six_filled p \<and> (v = Server_js \<longrightarrow> truthy (Pre_Image_URL p))"
    and fire: "fires n (serve pf cfg v reqs w)
                 (snd (dispatch pf cfg v ev req (serve pf cfg v reqs w)))"
  shows "map_option six_filled (store (serve pf cfg v reqs w) n) = Some False"
proof -
  from serve_keeps_invariant [OF p st inv, of pf cfg reqs]
  obtain p1 where p1: "store (serve pf cfg v reqs w) n = Some p1"
    and inv1: "Status p1 = ''Fulfilled'' \<longleftrightarrow>
                six_filled p1 \<and> (v = Server_js \<longrightarrow> truthy (Pre_Image_URL p1))"
    by blast
  from fires_under_invariant [OF p1 inv1 fire] p1 show ?thesis by simp
qed

text \<open>
  C4 (amended). For every revision, every starting state, every SKU and every list of
  image and description save requests, with whatever outcomes of the database and the
  disk: a product that is \<open>Fulfilled\<close> is still \<open>Fulfilled\<close> after the whole list;
  the status of the product goes from \<open>Pending\<close> to \<open>Fulfilled\<close> in at most one
  request of the list; a request in which it does leaves all six slots filled and stamps
  the product with that request's time; and a request in which it does not leaves the
  timestamp as it was. (\<open>fires\<close> holds only when the status before the request is
  \<open>Pending\<close>.) For a product that starts out \<open>Pending\<close> or \<open>Fulfilled\<close>, and
  \<open>Fulfilled\<close> exactly when its required slots are filled, the request that fires,
  after any list of requests, is one that completes the slot set: one of the six slots
  was still empty before it.
\<close>

theorem status_monotonic_single_transition:
  "(status_of w n = Some ''Fulfilled'' \<longrightarrow>
      status_of (serve pf cfg v reqs w) n = Some ''Fulfilled'')
   \<and> transitions pf cfg v n reqs w \<le> 1
   \<and> (fires n w (snd (dispatch pf cfg v ev req w)) \<longrightarrow>
        map_option six_filled (store (snd (dispatch pf cfg v ev req w)) n) = Some True
        \<and> map_option Created_At (store (snd (dispatch pf cfg v ev req w)) n) = Some (now ev))
   \<and> (\<not> fires n w (snd (dispatch pf cfg v ev req w)) \<longrightarrow>
        map_option Created_At (store (snd (dispatch pf cfg v ev req w)) n)
          = map_option Created_At (store w n))
   \<and> (store w n = Some p
        \<and> (Status p = ''Pending'' \<or> Status p = ''Fulfilled'')
        \<and> (Status p = ''Fulfilled'' \<longleftrightarrow>
              six_filled p \<and> (v = Server_js \<longrightarrow> truthy (Pre_Image_URL p)))
        \<and> fires n (serve pf cfg v reqs w)
              (snd (dispatch pf cfg v ev req (serve pf cfg v reqs w))) \<longrightarrow>
        map_option six_filled (store (serve pf cfg v reqs w) n) = Some False)"
  using serve_keeps_fulfilled [of w n pf cfg v reqs]
    transitions_at_most_one [of pf cfg v n reqs w]
    fires_completes [of n w pf cfg v ev req]
    no_fire_keeps_timestamp [of n w pf cfg v ev req]
    fires_completes_slot_set [of w n p v pf cfg reqs ev req]
  by blast

theorem status_monotonic_single_transition_witness:
  "status_of (serve example_platform example_config Part_003
       [(calm 9, save_final_image)] world_fulfilled) 1001 = Some ''Fulfilled''
   \<and> transitions example_platform example_config Part_003 1001
       [(calm 7, save_final_image), (calm 9, save_final_image)] world_five \<le> 1
   \<and> map_option Created_At (store (snd (dispatch example_platform example_config Part_003
         (calm 7) save_final_image world_five)) 1001) = Some 7
   \<and> map_option Created_At (store (snd (dispatch example_platform example_config Part_003
         (calm 9) save_final_image world_fulfilled)) 1001) = Some 5
   \<and> map_option six_filled (store (serve example_platform example_config Part_003 []
         world_five) 1001) = Some False"
proof -
  have full: "status_of world_fulfilled 1001 = Some ''Fulfilled''"
    by (simp add: status_of_def world_fulfilled_def fulfilled_product_def)
  have fire: "fires 1001 world_five (snd (dispatch example_platform example_config Part_003
         (calm 7) save_final_image world_five))"
    unfolding save_final_image_part_003
    by (simp add: fires_def status_of_def world_five_def five_of_six_def new_product_def)
  have nofire: "\<not> fires 1001 world_fulfilled (snd (dispatch example_platform example_config
         Part_003 (calm 9) save_final_image world_fulfilled))"
    using full by (simp add: fires_def)
  have stamp: "map_option Created_At (store world_fulfilled 1001) = Some 5"
    by (simp add: world_fulfilled_def fulfilled_product_def)
  have start: "store world_five 1001 = Some five_of_six
      \<and> (Status five_of_six = ''Pending'' \<or> Status five_of_six = ''Fulfilled'')
      \<and> (Status five_of_six = ''Fulfilled'' \<longleftrightarrow>
            six_filled five_of_six
            \<and> (Part_003 = Server_js \<longrightarrow> truthy (Pre_Image_URL five_of_six)))"
    by (simp add: world_five_def five_of_six_def new_product_def six_filled_def)
  have fire0: "fires 1001 (serve example_platform example_config Part_003 [] world_five)
      (snd (dispatch example_platform example_config Part_003 (calm 7) save_final_image
             (serve example_platform example_config Part_003 [] world_five)))"
    using fire by simp
  from status_monotonic_single_transition [of world_fulfilled 1001 example_platform
         example_config Part_003 "[(calm 9, save_final_image)]" "calm 9" save_final_image]
       full nofire stamp
  have a: "status_of (serve example_platform example_config Part_003
       [(calm 9, save_final_image)] world_fulfilled) 1001 = Some ''Fulfilled''"
    and d: "map_option Created_At (store (snd (dispatch example_platform example_config Part_003
         (calm 9) save_final_image world_fulfilled)) 1001) = Some 5"
    by simp_all
  from status_monotonic_single_transition [of world_five 1001 example_platform
         example_config Part_003 "[(calm 7, save_final_image), (calm 9, save_final_image)]"
         "calm 7" save_final_image]
       fire
  have b: "transitions example_platform example_config Part_003 1001
       [(calm 7, save_final_image), (calm 9, save_final_image)] world_five \<le> 1"
    and c: "map_option Created_At (store (snd (dispatch example_platform example_config Part_003
         (calm 7) save_final_image world_five)) 1001) = Some 7"
    by (simp_all add: calm_def)
  from status_monotonic_single_transition [of world_five 1001 example_platform
         example_config Part_003 "[]" "calm 7" save_final_image five_of_six]
       start fire0
  have e: "map_option six_filled (store (serve example_platform example_config Part_003 []
         world_five) 1001) = Some False"
    by blast
  from a b c d e show ?thesis by blast
qed

lemma overwrite_complete_pending:
  "dispatch example_platform example_config Part_003 (calm 7) save_wax_png
     world_complete_pending =
     (Saved ''Image for SKU 1001 saved as Wax successfully.''
        (complete_pending\<lparr>Wax_Image_URL := Some ''http://localhost:5000/images/1001_Wax.png'',
                           Status := ''Fulfilled'', Created_At := 7\<rparr>),
      \<lparr>store = [1001 \<mapsto> complete_pending
                  \<lparr>Wax_Image_URL := Some ''http://localhost:5000/images/1001_Wax.png'',
                    Status := ''Fulfilled'', Created_At := 7\<rparr>],
       files = [''public/images/1001_Wax.png'' \<mapsto> ''AAAA'']\<rparr>)"
  by (simp add: Let_def dispatch_def save_wax_png_def update_product_image_def truthy_val_def
        findOne_def world_complete_pending_def calm_def example_platform_def example_config_def
        image_filename_def template_1001 extension_png split_png public_url_def
        schema_path_def schema_paths_def set_field_def recompute_status_def check_of_def
        checkFulfillment_def complete_pending_def five_of_six_def new_product_def)

text \<open>
  The claim as stated, for every product, fails for a product that is \<open>Pending\<close>
  with all six slots already filled (a record ingested that way): a save that only
  overwrites its wax image fires the transition and stamps the product, though the slot
  set was complete before it.
\<close>

theorem redundant_write_fires_counterexample:
  "status_of world_complete_pending 1001 = Some ''Pending''
   \<and> map_option six_filled (store world_complete_pending 1001) = Some True
   \<and> fires 1001 world_complete_pending
        (snd (dispatch example_platform example_config Part_003 (calm 7) save_wax_png
               world_complete_pending))
   \<and> map_option Created_At (store (snd (dispatch example_platform example_config Part_003
        (calm 7) save_wax_png world_complete_pending)) 1001) = Some 7"
  unfolding overwrite_complete_pending
  by (simp add: status_of_def fires_def world_complete_pending_def complete_pending_def
        five_of_six_def new_product_def six_filled_def)

section \<open>C5: the fallback list of models\<close>

lemma sent_Nil [simp]: "sent pf fs p ref [] = []"
  by (simp add: sent_def map_filter_simps)

lemma sent_Cons:
  "sent pf fs p ref (m # ms) =
     (case request_body pf fs p ref m of None \<Rightarrow> sent pf fs p ref ms
      | Some body \<Rightarrow> body # sent pf fs p ref ms)"
  by (simp add: sent_def map_filter_simps split: option.splits)

lemma try_models_all_fail:
  "\<forall>m \<in> set ms. attempt pf api fs p ref m = None \<Longrightarrow>
   try_models pf api fs p ref ms = (sent pf fs p ref ms, None)"
  by (induction ms) (auto simp: attempt_def sent_Cons split: option.splits sum.splits)

lemma try_models_first_success:
  assumes "\<forall>x \<in> set before. attempt pf api fs p ref x = None"
    and "attempt pf api fs p ref m = Some g"
  shows "try_models pf api fs p ref (before @ m # after)
           = (sent pf fs p ref (before @ [m]), Some g)"
  using assms
  by (induction before) (auto simp: attempt_def sent_Cons split: option.splits sum.splits)

lemma try_models_none:
  "snd (try_models pf api fs p ref ms) = None \<Longrightarrow> \<forall>m \<in> set ms. attempt pf api fs p ref m = None"
  by (induction ms) (auto simp: attempt_def split: option.splits sum.splits prod.splits)

lemma attempt_Some_iff:
  "attempt pf api fs p ref m = Some g \<longleftrightarrow>
     (\<exists>body pr others b. request_body pf fs p ref m = Some body
        \<and> api body = Responded (Some (pr # others))
        \<and> bytesBase64Encoded pr = Some b \<and> b \<noteq> []
        \<and> g = \<lparr>imageBuffer = from_base64 pf b, modelUsed = m,
                 imageFormat = format_of_mime (mimeType pr)\<rparr>)"
  by (auto simp: attempt_def model_result_def
        split: option.splits sum.splits api_outcome.splits list.splits if_splits)

text \<open>
  C5 (amended). A pass of the loop succeeds exactly when the call could be built and sent
  and the FIRST prediction of the response carries a non-empty \<open>bytesBase64Encoded\<close>
  (\<open>attempt_Some_iff\<close>). With the API key configured: if the passes of all models
  fail, the function fails with "All configured Imagen models failed"; and if the models
  before some model fail and that model's pass succeeds, the function returns that
  pass's result and has sent calls for the models up to it only, none for the models
  after it. Whatever the configuration, the function fails with "All configured Imagen
  models failed" only when the passes of all models fail.
\<close>

theorem first_successful_model_returned:
  "(truthy (GOOGLE_AI_API_KEY cfg) \<longrightarrow>
      ((\<forall>m \<in> set imagenModels. attempt pf api fs p ref m = None) \<longrightarrow>
         generateImageWithGoogleAI pf cfg api fs p ref
           = (sent pf fs p ref imagenModels,
              Inl ''Image generation failed: All configured Imagen models failed.''))
      \<and> (\<forall>before m after g.
            imagenModels = before @ m # after
            \<and> (\<forall>x \<in> set before. attempt pf api fs p ref x = None)
            \<and> attempt pf api fs p ref m = Some g \<longrightarrow>
            generateImageWithGoogleAI pf cfg api fs p ref
              = (sent pf fs p ref (before @ [m]), Inr g)))
   \<and> (snd (generateImageWithGoogleAI pf cfg api fs p ref)
         = Inl ''Image generation failed: All configured Imagen models failed.'' \<longrightarrow>
       (\<forall>m \<in> set imagenModels. attempt pf api fs p ref m = None))"
proof (intro conjI impI allI)
  assume "truthy (GOOGLE_AI_API_KEY cfg)"
    and "\<forall>m \<in> set imagenModels. attempt pf api fs p ref m = None"
  then show "generateImageWithGoogleAI pf cfg api fs p ref
           = (sent pf fs p ref imagenModels,
              Inl ''Image generation failed: All configured Imagen models failed.'')"
    by (simp add: generateImageWithGoogleAI_def try_models_all_fail)
next
  fix before m after g
  assume key: "truthy (GOOGLE_AI_API_KEY cfg)"
    and a: "imagenModels = before @ m # after
            \<and> (\<forall>x \<in> set before. attempt pf api fs p ref x = None)
            \<and> attempt pf api fs p ref m = Some g"
  then have "try_models pf api fs p ref imagenModels = (sent pf fs p ref (before @ [m]), Some g)"
    using try_models_first_success [of before pf api fs p ref m g after] by simp
  with key show "generateImageWithGoogleAI pf cfg api fs p ref
              = (sent pf fs p ref (before @ [m]), Inr g)"
    by (simp add: generateImageWithGoogleAI_def)
next
  assume "snd (generateImageWithGoogleAI pf cfg api fs p ref)
         = Inl ''Image generation failed: All configured Imagen models failed.''"
  then have "snd (try_models pf api fs p ref imagenModels) = None"
    by (auto simp: generateImageWithGoogleAI_def split: if_splits prod.splits option.splits)
  then show "\<forall>m \<in> set imagenModels. attempt pf api fs p ref m = None"
    by (rule try_models_none)
qed

theorem first_successful_model_returned_witness:
  "generateImageWithGoogleAI example_platform example_config second_model_answers Map.empty
     ''a gold ring'' None
   = ([\<lparr>model = ''imagen-4.0-generate-preview-06-06'', prompt = ''a gold ring'',
         reference_image = None\<rparr>,
       \<lparr>model = ''imagen-3.0-generate-002'', prompt = ''a gold ring'',
         reference_image = None\<rparr>],
      Inr \<lparr>imageBuffer = ''BBBB'', modelUsed = ''imagen-3.0-generate-002'',
           imageFormat = ''jpeg''\<rparr>)
   \<and> generateImageWithGoogleAI example_platform example_config all_rejecting Map.empty
     ''a gold ring'' None
   = ([\<lparr>model = ''imagen-4.0-generate-preview-06-06'', prompt = ''a gold ring'',
         reference_image = None\<rparr>,
       \<lparr>model = ''imagen-3.0-generate-002'', prompt = ''a gold ring'',
         reference_image = None\<rparr>],
      Inl ''Image generation failed: All configured Imagen models failed.'')"
proof -
  let ?g = "\<lparr>imageBuffer = ''BBBB'', modelUsed = ''imagen-3.0-generate-002'',
              imageFormat = ''jpeg''\<rparr>"
  have key: "truthy (GOOGLE_AI_API_KEY example_config)"
    by (simp add: example_config_def)
  have split: "imagenModels = [''imagen-4.0-generate-preview-06-06''] @ ''imagen-3.0-generate-002'' # []"
    by (simp add: imagenModels_def)
  have first_fails: "\<forall>x \<in> set [''imagen-4.0-generate-preview-06-06''].
      attempt example_platform second_model_answers Map.empty ''a gold ring'' None x = None"
    by (simp add: attempt_def request_body_def second_model_answers_def model_result_def)
  have second_ok: "attempt example_platform second_model_answers Map.empty ''a gold ring'' None
      ''imagen-3.0-generate-002'' = Some ?g"
    by (simp add: attempt_def request_body_def second_model_answers_def model_result_def
          format_of_mime_def example_platform_def)
  have all_fail: "\<forall>m \<in> set imagenModels.
      attempt example_platform all_rejecting Map.empty ''a gold ring'' None m = None"
    by (simp add: attempt_def request_body_def all_rejecting_def model_result_def imagenModels_def)
  have sent2: "sent example_platform Map.empty ''a gold ring'' None
      ([''imagen-4.0-generate-preview-06-06''] @ [''imagen-3.0-generate-002''])
      = [\<lparr>model = ''imagen-4.0-generate-preview-06-06'', prompt = ''a gold ring'',
         reference_image = None\<rparr>,
       \<lparr>model = ''imagen-3.0-generate-002'', prompt = ''a gold ring'',
         reference_image = None\<rparr>]"
    by (simp add: sent_Cons request_body_def)
  have sent_all: "sent example_platform Map.empty ''a gold ring'' None imagenModels
      = [\<lparr>model = ''imagen-4.0-generate-preview-06-06'', prompt = ''a gold ring'',
         reference_image = None\<rparr>,
       \<lparr>model = ''imagen-3.0-generate-002'', prompt = ''a gold ring'',
         reference_image = None\<rparr>]"
    by (simp add: sent_Cons request_body_def imagenModels_def)
  from first_successful_model_returned [of example_config example_platform second_model_answers
         Map.empty "''a gold ring''" None] key split first_fails second_ok
  have a: "generateImageWithGoogleAI example_platform example_config second_model_answers
             Map.empty ''a gold ring'' None
           = (sent example_platform Map.empty ''a gold ring'' None
                ([''imagen-4.0-generate-preview-06-06''] @ [''imagen-3.0-generate-002'']), Inr ?g)"
    by blast
  from first_successful_model_returned [of example_config example_platform all_rejecting
         Map.empty "''a gold ring''" None] key all_fail
  have b: "generateImageWithGoogleAI example_platform example_config all_rejecting
             Map.empty ''a gold ring'' None
           = (sent example_platform Map.empty ''a gold ring'' None imagenModels,
              Inl ''Image generation failed: All configured Imagen models failed.'')"
    by blast
  show ?thesis unfolding a b sent2 sent_all by simp
qed

text \<open>
  As the claim words it, a pass that "yields a prediction containing a base64 image
  payload" is returned at once. The first model here answers with two predictions, the
  payload in the second: the loop throws "No bytesBase64Encoded in prediction", calls
  the second model and returns its image.
\<close>

theorem first_prediction_only_counterexample:
  "yields_payload (payload_in_second_prediction
      \<lparr>model = ''imagen-4.0-generate-preview-06-06'', prompt = ''a gold ring'',
        reference_image = None\<rparr>)
   \<and> generateImageWithGoogleAI example_platform example_config payload_in_second_prediction
        Map.empty ''a gold ring'' None
      = ([\<lparr>model = ''imagen-4.0-generate-preview-06-06'', prompt = ''a gold ring'',
            reference_image = None\<rparr>,
          \<lparr>model = ''imagen-3.0-generate-002'', prompt = ''a gold ring'',
            reference_image = None\<rparr>],
         Inr \<lparr>imageBuffer = ''BBBB'', modelUsed = ''imagen-3.0-generate-002'',
              imageFormat = ''jpeg''\<rparr>)"
  by (simp add: yields_payload_def generateImageWithGoogleAI_def example_config_def
        example_platform_def imagenModels_def request_body_def payload_in_second_prediction_def
        model_result_def format_of_mime_def)

section \<open>C6 and C2: the generate-image handler\<close>







text \<open>
  C2. The handler removes the uploaded reference image only after \<open>res.send\<close>, inside
  the \<open>try\<close>; the \<open>catch\<close> block does not. With an upload on disk and a service
  that rejects both models, the response is 500 and the upload is still there; with a
  service that answers, the upload is removed.
\<close>

theorem failed_generation_keeps_upload:
  "files world_with_upload ''uploads/1700000000000-ring.png'' = Some ''PNG-bytes''
   \<and> generate_image example_platform example_config all_rejecting (Some ''a gold ring'')
        (Some ''uploads/1700000000000-ring.png'') world_with_upload
      = (Failure 500
           ''Failed to generate image: Image generation failed: All configured Imagen models failed.'',
         [\<lparr>model = ''imagen-4.0-generate-preview-06-06'', prompt = ''a gold ring'',
            reference_image = Some ''PNG-bytes''\<rparr>,
          \<lparr>model = ''imagen-3.0-generate-002'', prompt = ''a gold ring'',
            reference_image = Some ''PNG-bytes''\<rparr>],
         world_with_upload)
   \<and> files (snd (snd (generate_image example_platform example_config second_model_answers
        (Some ''a gold ring'') (Some ''uploads/1700000000000-ring.png'') world_with_upload)))
        ''uploads/1700000000000-ring.png'' = None"
  by (simp add: generate_image_def generateImageWithGoogleAI_def example_config_def
        example_platform_def imagenModels_def request_body_def all_rejecting_def
        second_model_answers_def model_result_def format_of_mime_def world_with_upload_def)

section \<open>C7: a SKU that is not in the store\<close>

text \<open>
  C7 (amended). When the lookup finds no product for the request's SKU, an
  update-product-image request that carries a SKU, an imageType and an imageDataUrl is
  answered 404 "Product with SKU ... not found."; one that lacks any of the three is
  answered 400 by the check that comes before the lookup. Either way the store and the
  files are exactly as before: no record is created.
\<close>

theorem unknown_sku_not_found:
  assumes "findOne pf ev w k = Inr None"
  shows "update_product_image pf cfg v ev (Some k) imageType imageDataUrl w =
           (if truthy_val (Some k) \<and> truthy_val imageType \<and> truthy_val imageDataUrl
            then Failure 404 (''Product with SKU '' @ template pf k @ '' not found.'')
            else Failure 400 ''SKU, imageType, and imageDataUrl are required'',
            w)"
proof (cases "truthy_val (Some k) \<and> truthy_val imageType \<and> truthy_val imageDataUrl")
  case False
  then show ?thesis by (simp add: update_product_image_missing)
next
  case True
  then obtain t u where "imageType = Some t" "imageDataUrl = Some u"
    by (cases imageType; cases imageDataUrl) (simp_all add: truthy_val_def)
  with True assms show ?thesis by (simp add: update_product_image_def)
qed

theorem unknown_sku_not_found_witness:
  "findOne example_platform (calm 7) world_five (JNumber 7) = Inr None
   \<and> update_product_image example_platform example_config Part_003 (calm 7) (Some (JNumber 7))
        (Some (JString ''Wax'')) (Some (JString ''data:image/png;base64,AAAA'')) world_five
      = (Failure 404 ''Product with SKU 7 not found.'', world_five)"
proof -
  have none: "findOne example_platform (calm 7) world_five (JNumber 7) = Inr None"
    by (simp add: findOne_def calm_def world_five_def)
  have seven: "template example_platform (JNumber 7) = ''7''"
    by (simp add: template_def digits.simps)
  from unknown_sku_not_found [OF none, of example_config Part_003 "Some (JString ''Wax'')"
         "Some (JString ''data:image/png;base64,AAAA'')"] none seven
  show ?thesis by (simp add: truthy_val_def)
qed

text \<open>
  The claim as stated, 404 for every request whose SKU is not in the store, fails for a
  request without an imageType: the handler answers 400 before it looks the SKU up.
\<close>

theorem unknown_sku_missing_type_counterexample:
  "store world_five 7 = None
   \<and> update_product_image example_platform example_config Part_003 (calm 7) (Some (JNumber 7))
        None (Some (JString ''data:image/png;base64,AAAA'')) world_five
      = (Failure 400 ''SKU, imageType, and imageDataUrl are required'', world_five)"
  by (simp add: world_five_def update_product_image_def truthy_val_def)

section \<open>C10: the file is written before the slot is checked\<close>




section \<open>C8: a type outside the recognized slots\<close>

lemma invalid_image_type_not_saved:
  assumes "template pf t @ '' Image URL'' \<notin> six_slots"
  shows "fst (update_product_image pf cfg v ev sku (Some t) imageDataUrl w) \<noteq> Saved m q"
proof
  assume "fst (update_product_image pf cfg v ev sku (Some t) imageDataUrl w) = Saved m q"
  then have "update_product_image pf cfg v ev sku (Some t) imageDataUrl w
               = (Saved m q, snd (update_product_image pf cfg v ev sku (Some t) imageDataUrl w))"
    by (simp add: prod_eq_iff)
  from update_product_image_saved [OF this]
  have "schema_path v (template pf t @ '' Image URL'')" by auto
  then have "template pf t @ '' Image URL'' \<in> six_slots" by (rule image_slot_in_six)
  with assms show False by simp
qed

lemma invalid_image_type_store:
  assumes "template pf t @ '' Image URL'' \<notin> six_slots"
  shows "store (snd (update_product_image pf cfg v ev sku (Some t) imageDataUrl w)) = store w"
proof (rule update_product_image_unsaved)
  show "update_product_image pf cfg v ev sku (Some t) imageDataUrl w
          = (fst (update_product_image pf cfg v ev sku (Some t) imageDataUrl w),
             snd (update_product_image pf cfg v ev sku (Some t) imageDataUrl w))"
    by simp
  show "\<forall>m q. fst (update_product_image pf cfg v ev sku (Some t) imageDataUrl w) \<noteq> Saved m q"
    using invalid_image_type_not_saved [OF assms] by blast
qed

lemma invalid_image_type_bad_url:
  assumes "findOne pf ev w k = Inr (Some (n, p))"
    and "truthy_val (Some k)" and "truthy_val (Some t)"
    and "url \<noteq> []" and "\<not> prefix ''data:image/'' url"
  shows "update_product_image pf cfg v ev (Some k) (Some t) (Some (JString url)) w
           = (Failure 400 ''Invalid imageDataUrl format'', w)"
  using assms by (simp add: update_product_image_def truthy_val_def)

lemma invalid_desc_type_answer:
  assumes "findOne pf ev w k = Inr (Some (n, p))"
    and "template pf t @ '' Description'' \<notin> six_slots"
  shows "dispatch pf cfg v ev (Update_product_description (Some k) (Some t) description) w
           = (case v of
                Server_js \<Rightarrow> Failure 404 ''Cannot POST /api/update-product-description''
              | Part_003 \<Rightarrow>
                  if truthy_val (Some k) \<and> truthy_val (Some t) \<and> truthy_val description
                  then Failure 400 (''Invalid descType: '' @ template pf t)
                  else Failure 400 ''SKU, descType, and description are required'',
              w)"
proof (cases v)
  case Server_js
  then show ?thesis by (simp add: dispatch_def)
next
  case Part_003
  show ?thesis
  proof (cases description)
    case None
    with Part_003 show ?thesis
      by (simp add: dispatch_def update_product_description_def truthy_val_def)
  next
    case (Some d)
    with Part_003 assms show ?thesis
      by (simp add: dispatch_def update_product_description_def Let_def schema_path_desc_six)
  qed
qed

text \<open>
  C8 (amended). For a save request on an existing product (the lookup finds it) whose
  type maps to a slot key outside the six slot names: the stored product is unchanged
  and the request is not answered as saved, whatever the other fields are. An image save
  that passes the steps before the slot check (SKU and imageType present, the
  imageDataUrl a string with the \<open>data:image/\<close> prefix and a payload after a comma,
  the file written) is answered 400 "Invalid imageType: ..."; one whose imageDataUrl is
  a non-empty string without the prefix is answered 400 "Invalid imageDataUrl format"
  by the check that comes first. A description save changes nothing at all: the
  revision of \<open>part_003\<close> answers 400, "Invalid descType: ..." when all three fields
  are present and the required-fields message otherwise; \<open>src/backend/server.js\<close>
  has no description route and answers 404.
\<close>

theorem invalid_slot_leaves_product:
  assumes found: "findOne pf ev w k = Inr (Some (n, p))"
  shows "(template pf t @ '' Image URL'' \<notin> six_slots \<longrightarrow>
            store (snd (update_product_image pf cfg v ev (Some k) (Some t) imageDataUrl w))
              = store w
            \<and> (\<forall>m q. fst (update_product_image pf cfg v ev (Some k) (Some t) imageDataUrl w)
                       \<noteq> Saved m q)
            \<and> (truthy_val (Some k) \<and> truthy_val (Some t) \<and> prefix ''data:image/'' url
                 \<and> split_comma_second url = Some b \<and> write_error ev = None \<longrightarrow>
                fst (update_product_image pf cfg v ev (Some k) (Some t) (Some (JString url)) w)
                  = Failure 400 (''Invalid imageType: '' @ template pf t))
            \<and> (truthy_val (Some k) \<and> truthy_val (Some t) \<and> url \<noteq> []
                 \<and> \<not> prefix ''data:image/'' url \<longrightarrow>
                update_product_image pf cfg v ev (Some k) (Some t) (Some (JString url)) w
                  = (Failure 400 ''Invalid imageDataUrl format'', w)))
       \<and> (template pf t @ '' Description'' \<notin> six_slots \<longrightarrow>
            dispatch pf cfg v ev (Update_product_description (Some k) (Some t) description) w
              = (case v of
                   Server_js \<Rightarrow> Failure 404 ''Cannot POST /api/update-product-description''
                 | Part_003 \<Rightarrow>
                     if truthy_val (Some k) \<and> truthy_val (Some t) \<and> truthy_val description
                     then Failure 400 (''Invalid descType: '' @ template pf t)
                     else Failure 400 ''SKU, descType, and description are required'',
                 w))"
proof (intro conjI impI allI)
  assume t: "template pf t @ '' Image URL'' \<notin> six_slots"
  show "store (snd (update_product_image pf cfg v ev (Some k) (Some t) imageDataUrl w))
          = store w"
    using t by (rule invalid_image_type_store)
  show "fst (update_product_image pf cfg v ev (Some k) (Some t) imageDataUrl w) \<noteq> Saved m q"
    for m q
    using t by (rule invalid_image_type_not_saved)
next
  assume t: "template pf t @ '' Image URL'' \<notin> six_slots"
    and "truthy_val (Some k) \<and> truthy_val (Some t) \<and> prefix ''data:image/'' url
           \<and> split_comma_second url = Some b \<and> write_error ev = None"
  then have "truthy_val (Some k)" "truthy_val (Some t)" "prefix ''data:image/'' url"
    "split_comma_second url = Some b" "write_error ev = None"
    by blast+
  from invalid_image_type_after_write [OF found this(1,2) t this(3,4,5), of cfg v]
  show "fst (update_product_image pf cfg v ev (Some k) (Some t) (Some (JString url)) w)
          = Failure 400 (''Invalid imageType: '' @ template pf t)"
    by simp
next
  assume "truthy_val (Some k) \<and> truthy_val (Some t) \<and> url \<noteq> []
            \<and> \<not> prefix ''data:image/'' url"
  then have "truthy_val (Some k)" "truthy_val (Some t)" "url \<noteq> []"
    "\<not> prefix ''data:image/'' url"
    by blast+
  with found
  show "update_product_image pf cfg v ev (Some k) (Some t) (Some (JString url)) w
          = (Failure 400 ''Invalid imageDataUrl format'', w)"
    by (rule invalid_image_type_bad_url)
next
  assume "template pf t @ '' Description'' \<notin> six_slots"
  with found
  show "dispatch pf cfg v ev (Update_product_description (Some k) (Some t) description) w
          = (case v of
               Server_js \<Rightarrow> Failure 404 ''Cannot POST /api/update-product-description''
             | Part_003 \<Rightarrow>
                 if truthy_val (Some k) \<and> truthy_val (Some t) \<and> truthy_val description
                 then Failure 400 (''Invalid descType: '' @ template pf t)
                 else Failure 400 ''SKU, descType, and description are required'',
             w)"
    by (rule invalid_desc_type_answer)
qed

theorem invalid_slot_leaves_product_witness:
  "store (snd (update_product_image example_platform example_config Part_003 (calm 7)
          (Some (JNumber 1001)) (Some (JString ''Pre-Image''))
          (Some (JString ''data:image/png;base64,AAAA'')) world_five)) = store world_five
   \<and> fst (update_product_image example_platform example_config Part_003 (calm 7)
          (Some (JNumber 1001)) (Some (JString ''Pre-Image''))
          (Some (JString ''data:image/png;base64,AAAA'')) world_five)
        = Failure 400 ''Invalid imageType: Pre-Image''
   \<and> update_product_image example_platform example_config Part_003 (calm 7)
          (Some (JNumber 1001)) (Some (JString ''Pre-Image''))
          (Some (JString ''http://example.com/ring.png'')) world_five
        = (Failure 400 ''Invalid imageDataUrl format'', world_five)
   \<and> dispatch example_platform example_config Part_003 (calm 7)
          (Update_product_description (Some (JNumber 1001)) (Some (JString ''Pre-Image''))
             (Some (JString ''a gold ring''))) world_five
        = (Failure 400 ''Invalid descType: Pre-Image'', world_five)"
proof -
  have found: "findOne example_platform (calm 7) world_five (JNumber 1001)
                 = Inr (Some (1001, five_of_six))"
    by (simp add: findOne_def calm_def world_five_def)
  have sku: "truthy_val (Some (JNumber 1001))" by (simp add: truthy_val_def)
  have ty: "truthy_val (Some (JString ''Pre-Image''))" by (simp add: truthy_val_def)
  have words: "truthy_val (Some (JString ''a gold ring''))" by (simp add: truthy_val_def)
  have image_key: "template example_platform (JString ''Pre-Image'') @ '' Image URL''
                     \<notin> six_slots"
    by (simp add: six_slots_def)
  have desc_key: "template example_platform (JString ''Pre-Image'') @ '' Description''
                    \<notin> six_slots"
    by (simp add: six_slots_def)
  have pre: "prefix ''data:image/'' ''data:image/png;base64,AAAA''" by simp
  have ok: "write_error (calm 7) = None" by (simp add: calm_def)
  have other: "''http://example.com/ring.png'' \<noteq> []
                 \<and> \<not> prefix ''data:image/'' ''http://example.com/ring.png''"
    by simp
  from invalid_slot_leaves_product [OF found, of "JString ''Pre-Image''" example_config
         Part_003 "Some (JString ''data:image/png;base64,AAAA'')"
         "''data:image/png;base64,AAAA''" "''AAAA''" "Some (JString ''a gold ring'')"]
       sku ty words image_key desc_key pre split_png ok
  have a: "store (snd (update_product_image example_platform example_config Part_003 (calm 7)
          (Some (JNumber 1001)) (Some (JString ''Pre-Image''))
          (Some (JString ''data:image/png;base64,AAAA'')) world_five)) = store world_five"
    and b: "fst (update_product_image example_platform example_config Part_003 (calm 7)
          (Some (JNumber 1001)) (Some (JString ''Pre-Image''))
          (Some (JString ''data:image/png;base64,AAAA'')) world_five)
        = Failure 400 ''Invalid imageType: Pre-Image''"
    and d: "dispatch example_platform example_config Part_003 (calm 7)
          (Update_product_description (Some (JNumber 1001)) (Some (JString ''Pre-Image''))
             (Some (JString ''a gold ring''))) world_five
        = (Failure 400 ''Invalid descType: Pre-Image'', world_five)"
    by simp_all
  from invalid_slot_leaves_product [OF found, of "JString ''Pre-Image''" example_config
         Part_003 "Some (JString ''http://example.com/ring.png'')"
         "''http://example.com/ring.png''" "''AAAA''" "Some (JString ''a gold ring'')"]
       sku ty image_key other
  have c: "update_product_image example_platform example_config Part_003 (calm 7)
          (Some (JNumber 1001)) (Some (JString ''Pre-Image''))
          (Some (JString ''http://example.com/ring.png'')) world_five
        = (Failure 400 ''Invalid imageDataUrl format'', world_five)"
    by simp
  from a b c d show ?thesis by blast
qed

text \<open>
  The claim as stated, InvalidSlot (HTTP 400) for every such request, fails in two ways
  that the code writes out. \<open>src/backend/server.js\<close> has no description route: a
  description save of type Gold for the existing SKU 1001 is answered 404. And the image
  handler checks the form of the imageDataUrl before the slot: an image save of type Gold
  with a plain web address is answered "Invalid imageDataUrl format", not
  "Invalid imageType".
\<close>

theorem invalid_slot_other_answer_counterexample:
  "store world_five 1001 = Some five_of_six
   \<and> ''Gold'' @ '' Description'' \<notin> six_slots
   \<and> dispatch example_platform example_config Server_js (calm 7) describe_gold world_five
      = (Failure 404 ''Cannot POST /api/update-product-description'', world_five)
   \<and> ''Gold'' @ '' Image URL'' \<notin> six_slots
   \<and> update_product_image example_platform example_config Part_003 (calm 7)
        (Some (JNumber 1001)) (Some (JString ''Gold''))
        (Some (JString ''http://example.com/ring.png'')) world_five
      = (Failure 400 ''Invalid imageDataUrl format'', world_five)"
  by (simp add: world_five_def six_slots_def dispatch_def describe_gold_def
        update_product_image_def truthy_val_def findOne_def calm_def)

section \<open>C9: the name of a stored image\<close>











end
